theory Spec2Isabelle
  imports Complex_Main "HOL-Library.Sublist"
begin

section \<open>Tenant resolver (tenant-mapping module)\<close>

text \<open>
  The tenant-mapping module keeps a table of \<open>TenantMapping\<close> objects in the module
  variable \<open>tenantMappings\<close> and a fixed allow-list \<open>TECHVANA_SUPER_ADMINS\<close>.
  The table is mutable (\<open>addTenantMapping\<close>, the \<open>TENANT_MAPPING\<close> environment
  variable), so every function that reads it takes it as its first argument.
  Strings are byte lists; the two non-ASCII letters of the default tenant's display
  name are written as their UTF-8 bytes.
\<close>

record TenantMapping =
  azureTenantId :: string
  dbTenantId :: string
  tenantName :: string

definition DEFAULT_TENANT_MAPPINGS :: "TenantMapping list" where
  "DEFAULT_TENANT_MAPPINGS =
     [\<lparr>azureTenantId = ''71416bf2-04a4-4715-a8d2-6af239168e20'',
       dbTenantId = ''default'',
       tenantName = [char_of (0xC3 :: nat), char_of (0x96 :: nat)] @ ''resundst''
                    @ [char_of (0xC3 :: nat), char_of (0xA5 :: nat)] @ ''g''\<rparr>]"

definition TECHVANA_SUPER_ADMINS :: "string list" where
  "TECHVANA_SUPER_ADMINS = [''elias-chahoud@hotmail.com'']"

text \<open>
  Module initialisation, by what \<open>process.env.TENANT_MAPPING\<close> holds. Unset or
  empty (\<open>EnvUnset\<close>): the defaults stay. A text that \<open>JSON.parse\<close> rejects
  (\<open>EnvUnparsable\<close>): the error is caught before the assignment and the defaults
  stay. A text that parses is assigned to \<open>tenantMappings\<close> at once, before its
  \<open>length\<close> is read: a list of mappings (\<open>EnvMappings\<close>) is the new table; any
  other JSON value (\<open>EnvOther\<close>: \<open>null\<close>, an object, a number, a list with other
  elements) stays in the variable as well, whether reading its \<open>length\<close> raises
  (then the \<open>catch\<close> block only warns) or not. The result is \<open>None\<close> in that case:
  the variable does not hold a \<open>TenantMapping[]\<close>, and the functions below, which
  take the table at its declared type, say nothing about it.
\<close>

datatype EnvMapping = EnvUnset | EnvUnparsable | EnvMappings "TenantMapping list" | EnvOther

definition initialTenantMappings :: "EnvMapping \<Rightarrow> TenantMapping list option" where
  "initialTenantMappings envMapping =
     (case envMapping of
        EnvUnset \<Rightarrow> Some DEFAULT_TENANT_MAPPINGS
      | EnvUnparsable \<Rightarrow> Some DEFAULT_TENANT_MAPPINGS
      | EnvMappings parsed \<Rightarrow> Some parsed
      | EnvOther \<Rightarrow> None)"

definition getDbTenantId :: "TenantMapping list \<Rightarrow> string \<Rightarrow> string" where
  "getDbTenantId tenantMappings azureId =
     (case find (\<lambda>m. azureTenantId m = azureId) tenantMappings of
        Some mapping \<Rightarrow> dbTenantId mapping
      | None \<Rightarrow> ''default'')"

text \<open>
  \<open>email.toLowerCase()\<close>: the letters \<open>A\<close> to \<open>Z\<close> move to \<open>a\<close> to \<open>z\<close>, every
  other byte stays. The only allow-listed address is plain ASCII and holds no \<open>k\<close>, so
  no character outside \<open>A\<close> to \<open>Z\<close> lower-cases onto one of its letters and membership
  in the allow-list is decided by this byte-wise function.
\<close>

definition toLowerCaseChar :: "char \<Rightarrow> char" where
  "toLowerCaseChar c =
     (if 65 \<le> (of_char c :: nat) \<and> (of_char c :: nat) \<le> 90
      then char_of ((of_char c :: nat) + 32) else c)"

definition toLowerCase :: "string \<Rightarrow> string" where
  "toLowerCase s = map toLowerCaseChar s"

definition isTechvanaSuperAdmin :: "string \<Rightarrow> bool" where
  "isTechvanaSuperAdmin email = (toLowerCase email \<in> set TECHVANA_SUPER_ADMINS)"

text \<open>
  \<open>requestedTenantId || 'default'\<close>: the optional argument is absent (\<open>None\<close>) or a
  string; the operator \<open>||\<close> takes the right operand when the left one is
  \<open>undefined\<close> or the empty string.
\<close>

definition orDefault :: "string option \<Rightarrow> string \<Rightarrow> string" where
  "orDefault v d = (case v of None \<Rightarrow> d | Some s \<Rightarrow> if s = [] then d else s)"

definition getTenantIdForUser :: "TenantMapping list \<Rightarrow> string \<Rightarrow> string \<Rightarrow> string option \<Rightarrow> string" where
  "getTenantIdForUser tenantMappings email azureId requestedTenantId =
     (if isTechvanaSuperAdmin email
      then orDefault requestedTenantId ''default''
      else getDbTenantId tenantMappings azureId)"

text \<open>
  \<open>addTenantMapping\<close>: replace the first entry with the same external id, else append.
\<close>

fun addTenantMapping :: "TenantMapping list \<Rightarrow> TenantMapping \<Rightarrow> TenantMapping list" where
  "addTenantMapping [] mapping = [mapping]"
| "addTenantMapping (m # ms) mapping =
     (if azureTenantId m = azureTenantId mapping then mapping # ms
      else m # addTenantMapping ms mapping)"

section \<open>Chat server: authentication middleware\<close>

text \<open>
  Errors the JavaScript raises are values of \<open>exn\<close>; a computation that can raise
  returns \<open>exn + 'a\<close>, with \<open>Inl\<close> for the raised error.
\<close>

datatype exn = TypeError | SyntaxError | UpstreamError | DbError | AppError string

text \<open>
  \<open>UserInfo\<close>; the field \<open>name\<close> of the source is \<open>userName\<close> here.
\<close>

record UserInfo =
  email :: string
  userName :: string
  tenantId :: string
  objectId :: string
  groups :: "string list"

text \<open>
  What \<open>JSON.parse\<close> returns for the token's second segment: \<open>null\<close>, on which
  every property read raises a \<open>TypeError\<close>, or a value whose properties can be
  read. The claims that \<open>authenticate\<close> reads are strings (the group list a list of
  strings), absent when the property is \<open>undefined\<close>; a JSON number, string, boolean
  or array is a \<open>JsonObject\<close> with every claim absent.
\<close>

record JwtClaims =
  upn :: "string option"
  claimEmail :: "string option"
  preferred_username :: "string option"
  claimName :: "string option"
  tid :: "string option"
  oid :: "string option"
  claimGroups :: "string list option"

datatype JwtPayload = JsonNull | JsonObject JwtClaims

datatype AuthResult = Rejected nat string | Authenticated UserInfo

definition SUPERVISOR_GROUP :: string where
  "SUPERVISOR_GROUP = ''d5f7f6e7-380f-468d-9d0e-6a7c30fd3ef9''"

definition TECHNICIAN_GROUP :: string where
  "TECHNICIAN_GROUP = ''5dc860e3-600d-4332-9200-5cdc53e7242b''"

definition startsWith :: "string \<Rightarrow> string \<Rightarrow> bool" where
  "startsWith s p = (take (length p) s = p)"

text \<open>\<open>s.split(d)\<close> for a one-character separator: always at least one piece.\<close>

fun splitOn :: "char \<Rightarrow> string \<Rightarrow> string list" where
  "splitOn d [] = [[]]"
| "splitOn d (c # cs) =
     (if c = d then [] # splitOn d cs
      else (case splitOn d cs of
              [] \<Rightarrow> [[c]]
            | piece # pieces \<Rightarrow> (c # piece) # pieces))"

text \<open>
  The body of the \<open>try\<close> block after the prefix check, for the token \<open>t\<close>.
  \<open>t.split('.')[1]\<close> is \<open>undefined\<close> when the token has no dot, and
  \<open>Buffer.from(undefined, 'base64')\<close> raises a \<open>TypeError\<close>. The argument
  \<open>decodeJson\<close> stands for \<open>JSON.parse(Buffer.from(_, 'base64').toString('utf8'))\<close>
  of the two libraries: \<open>None\<close> when \<open>JSON.parse\<close> raises.
\<close>

definition tokenUser :: "string \<Rightarrow> (string \<Rightarrow> JwtPayload option) \<Rightarrow> string \<Rightarrow> exn + UserInfo" where
  "tokenUser configTenantId decodeJson token =
     (case splitOn CHR ''.'' token of
        _ # segment # _ \<Rightarrow>
          (case decodeJson segment of
             None \<Rightarrow> Inl SyntaxError
           | Some JsonNull \<Rightarrow> Inl TypeError
           | Some (JsonObject payload) \<Rightarrow>
               Inr \<lparr>email = orDefault (upn payload) (orDefault (claimEmail payload)
                              (orDefault (preferred_username payload) ''test@techra.app'')),
                    userName = orDefault (claimName payload) ''Test User'',
                    tenantId = orDefault (tid payload) configTenantId,
                    objectId = orDefault (oid payload) ''test-123'',
                    groups = (case claimGroups payload of None \<Rightarrow> [SUPERVISOR_GROUP] | Some g \<Rightarrow> g)\<rparr>)
      | _ \<Rightarrow> Inl TypeError)"

definition devUser :: "string \<Rightarrow> UserInfo" where
  "devUser configTenantId =
     \<lparr>email = ''dev@techra.app'', userName = ''Development User'',
      tenantId = configTenantId, objectId = ''dev-123'', groups = [SUPERVISOR_GROUP]\<rparr>"

text \<open>
  \<open>authenticate\<close>: the header is absent (\<open>None\<close>) or a string. A rejected request
  gets the reply \<open>401\<close>; otherwise \<open>request.user\<close> is set and the route's handler
  runs. The \<open>catch\<close> block installs the development user.
\<close>

definition authenticate :: "string \<Rightarrow> (string \<Rightarrow> JwtPayload option) \<Rightarrow> string option \<Rightarrow> AuthResult" where
  "authenticate configTenantId decodeJson authHeader =
     (case authHeader of
        None \<Rightarrow> Rejected 401 ''Authentication required''
      | Some h \<Rightarrow>
          if \<not> startsWith h ''Bearer '' then Rejected 401 ''Authentication required''
          else (case tokenUser configTenantId decodeJson (drop 7 h) of
                  Inr user \<Rightarrow> Authenticated user
                | Inl error \<Rightarrow> Authenticated (devUser configTenantId)))"

section \<open>Chat server: retrieval and the chat handler\<close>

datatype Role = RoleSystem | RoleUser | RoleAssistant

record ChatMessage =
  role :: Role
  content :: string

record ChatRequest =
  message :: string
  conversation_history :: "ChatMessage list option"

text \<open>
  One hit of the search service, as \<open>searchDocuments\<close> reads it: the two selected
  fields of the document and the score, each possibly \<open>undefined\<close>. Scores are
  numbers that the server only copies; they are rationals here.
\<close>

record SearchHit =
  hitContent :: "string option"
  metadata_storage_name :: "string option"
  hitScore :: "rat option"

record SearchResult =
  resultContent :: string
  source :: string
  score :: rat

text \<open>
  The two collaborators. A search client maps the query and \<open>top\<close> to the hits, or
  raises (also while the results are iterated); a completion client maps the deployment
  name and the messages to \<open>completion.choices[0]?.message?.content\<close>, absent when
  there is none, or raises. An unconfigured client is \<open>null\<close> in the source and
  \<open>None\<close> here.
\<close>

type_synonym SearchClient = "string \<Rightarrow> nat \<Rightarrow> exn + SearchHit list"
type_synonym OpenAIClient = "string \<Rightarrow> ChatMessage list \<Rightarrow> exn + string option"

definition searchDocuments :: "SearchClient option \<Rightarrow> string \<Rightarrow> nat \<Rightarrow> SearchResult list" where
  "searchDocuments searchClient query topN =
     (case searchClient of
        None \<Rightarrow> []
      | Some client \<Rightarrow>
          (case client query topN of
             Inl error \<Rightarrow> []
           | Inr hits \<Rightarrow>
               map (\<lambda>h. \<lparr>resultContent = orDefault (hitContent h) '''',
                          source = orDefault (metadata_storage_name h) ''Unknown'',
                          score = (case hitScore h of None \<Rightarrow> 0 | Some x \<Rightarrow> x)\<rparr>) hits))"

text \<open>Decimal digits of a number, as a template literal prints it.\<close>

fun showNat :: "nat \<Rightarrow> string" where
  "showNat n =
     (if n < 10 then [char_of (48 + n)]
      else showNat (n div 10) @ [char_of (48 + n mod 10)])"

definition showInt :: "int \<Rightarrow> string" where
  "showInt i = (if i < 0 then ''-'' @ showNat (nat (- i)) else showNat (nat i))"

definition buildContext :: "SearchResult list \<Rightarrow> string" where
  "buildContext searchResults =
     (if searchResults = [] then ''''
      else ''Relevant information from documentation:\<newline>\<newline>'' @
           concat (map (\<lambda>(idx, result).
                          ''['' @ showNat (idx + 1) @ ''] '' @ resultContent result @ ''\<newline>\<newline>'')
                       (enumerate 0 searchResults)))"

definition collectSources :: "SearchResult list \<Rightarrow> string list" where
  "collectSources searchResults =
     foldl (\<lambda>sources result.
              if source result \<in> set sources then sources else sources @ [source result])
           [] searchResults"

definition systemPrompt :: "UserInfo \<Rightarrow> string \<Rightarrow> string" where
  "systemPrompt user ctx =
     ''You are Techra AI Assistant, helping with train HVAC systems troubleshooting.\<newline>'' @
     ''            User: '' @ userName user @ '' ('' @ email user @ '')\<newline>'' @
     ''            Role: '' @
       (if SUPERVISOR_GROUP \<in> set (groups user) then ''Supervisor''
        else if TECHNICIAN_GROUP \<in> set (groups user) then ''Technician'' else ''Viewer'') @
     ''\<newline>            \<newline>            '' @
       (if ctx \<noteq> [] then ''Use this documentation to answer:\<newline>'' @ ctx
        else ''No specific documentation found.'') @
     ''\<newline>            \<newline>'' @
     ''            Provide accurate, technical responses about train HVAC systems, maintenance, and troubleshooting.''"

definition mockResponse :: "string \<Rightarrow> nat \<Rightarrow> string" where
  "mockResponse msg n =
     ''Mock response for: '' @ [char_of (34 :: nat)] @ msg @ [char_of (34 :: nat)] @ ''\<newline>\<newline>'' @
     ''Found '' @ showNat n @ '' relevant documents.\<newline>'' @
     ''This is a development response. Configure Azure OpenAI for real responses.''"

record ChatBody =
  respUser :: string
  reply :: string
  respSources :: "string list"
  respHistory :: "ChatMessage list"

datatype ChatReply = ChatOk ChatBody | ChatFailed nat string

text \<open>
  Step 3 of the handler: the reply text, or the error that the completion call raises.
\<close>

definition generateResponse ::
    "OpenAIClient option \<Rightarrow> string \<Rightarrow> UserInfo \<Rightarrow> string \<Rightarrow> ChatMessage list \<Rightarrow> string \<Rightarrow> nat \<Rightarrow> exn + string" where
  "generateResponse openAIClient deployment user ctx history msg found =
     (case openAIClient of
        Some client \<Rightarrow>
          (case client deployment
                  ([\<lparr>role = RoleSystem, content = systemPrompt user ctx\<rparr>] @
                   map (\<lambda>m. \<lparr>role = role m, content = content m\<rparr>) history @
                   [\<lparr>role = RoleUser, content = msg\<rparr>]) of
             Inl error \<Rightarrow> Inl error
           | Inr completion \<Rightarrow> Inr (orDefault completion ''No response generated''))
      | None \<Rightarrow> Inr (mockResponse msg found))"

text \<open>
  The handler of \<open>POST /chat\<close>, after \<open>authenticate\<close> has set \<open>request.user\<close>.
  In the reply, \<open>respUser\<close>, \<open>respSources\<close> and \<open>respHistory\<close> are the fields
  \<open>user\<close>, \<open>sources\<close> and \<open>conversation_history\<close> of the source. The \<open>catch\<close>
  block answers \<open>500\<close>.
\<close>

definition chat ::
    "SearchClient option \<Rightarrow> OpenAIClient option \<Rightarrow> string \<Rightarrow> UserInfo \<Rightarrow> ChatRequest \<Rightarrow> ChatReply" where
  "chat searchClient openAIClient deployment user request =
     (let history = (case conversation_history request of None \<Rightarrow> [] | Some h \<Rightarrow> h);
          searchResults = searchDocuments searchClient (message request) 3;
          ctx = buildContext searchResults;
          sources = collectSources searchResults
      in case generateResponse openAIClient deployment user ctx history (message request)
                (length searchResults) of
           Inl error \<Rightarrow> ChatFailed 500 ''Chat processing failed''
         | Inr aiResponse \<Rightarrow>
             ChatOk \<lparr>respUser = message request,
                     reply = aiResponse,
                     respSources = sources,
                     respHistory = history @
                       [\<lparr>role = RoleUser, content = message request\<rparr>,
                        \<lparr>role = RoleAssistant, content = aiResponse\<rparr>]\<rparr>)"

section \<open>Relational store\<close>

text \<open>
  The tables the lifecycle handlers read and write. Keys are the SQL integer keys of
  the schema script; a nullable column is an \<open>option\<close>. The admin modules name the
  aggregate's wagon reference \<open>current_wagon_id\<close> and the cars module names it
  \<open>current_car_id\<close>: it is the one field \<open>current_wagon_id\<close> here, and \<open>wagons\<close>
  holds the keys of the wagon (car) rows. A table with a key column is a map from the
  key to the rest of the row; a table that is only appended to is the list of its
  rows, oldest first. Columns that no modelled statement reads or writes are left
  out. Numeric sensor values are rationals; timestamps are natural numbers.
\<close>

record aggregate =
  aggregate_number :: string
  status :: string
  current_wagon_id :: "int option"
  is_spare :: bool
  current_temperature :: "rat option"
  pressure_value :: "rat option"
  updated_at :: nat

record sensor_reading =
  reading_aggregate_id :: int
  temperature :: "rat option"
  pressure :: "rat option"
  humidity :: "rat option"
  power_consumption :: "rat option"
  error_codes :: "string option"

text \<open>A JSON value, as \<open>JSON.stringify\<close> writes it into a JSONB column.\<close>

datatype json = JNull | JInt int | JString string | JArray "json list" | JObject "(string \<times> json) list"

record aggregate_log =
  log_aggregate_id :: int
  log_wagon_id :: "int option"
  event_type :: string
  log_description :: string
  log_old_value :: json
  log_new_value :: json

record aggregate_replacement =
  rep_tenant_id :: string
  rep_old_aggregate_id :: "int option"
  rep_new_aggregate_id :: "int option"
  rep_wagon_id :: "int option"
  rep_reason :: "string option"
  replaced_by :: string

record audit_log =
  audit_tenant_id :: string
  user_email :: string
  user_name :: string
  action :: string
  entity_type :: string
  entity_id :: string
  old_value :: "json option"
  new_value :: "json option"
  description :: string

record tenant =
  tenant_name :: string
  logo_url :: "string option"
  primary_color :: "string option"
  tenant_updated_at :: nat

record train_configuration =
  wagon_count :: int
  wagon_types :: json
  custom_labels :: "json option"
  configuration_updated_at :: nat

record database =
  aggregates :: "int \<rightharpoonup> aggregate"
  wagons :: "int set"
  sensor_readings :: "sensor_reading list"
  aggregate_logs :: "aggregate_log list"
  aggregate_replacements :: "aggregate_replacement list"
  audit_logs :: "audit_log list"
  tenants :: "string \<rightharpoonup> tenant"
  train_configurations :: "string \<rightharpoonup> train_configuration"

text \<open>
  A statement maps the database to its result and the database after it, or raises
  when it violates a constraint that the schema script declares for the table it
  writes. The script declares \<open>tenants\<close>, \<open>train_configurations\<close>, \<open>audit_logs\<close>
  and \<open>aggregate_replacements\<close>; the tables \<open>aggregates\<close>, \<open>wagons\<close>,
  \<open>sensor_readings\<close> and \<open>aggregate_logs\<close> are created elsewhere, so their
  statements raise here only through \<open>failing\<close> below.
\<close>

type_synonym 'a stmt = "database \<Rightarrow> exn + ('a \<times> database)"

text \<open>
  \<open>SELECT ... FROM aggregates WHERE id = $1\<close>: the rows found. A parameter that is
  \<open>null\<close> or \<open>undefined\<close> (\<open>None\<close>) matches no row.
\<close>

definition selectAggregate :: "int option \<Rightarrow> aggregate list stmt" where
  "selectAggregate i db =
     Inr (case i of
            None \<Rightarrow> []
          | Some k \<Rightarrow> (case aggregates db k of None \<Rightarrow> [] | Some row \<Rightarrow> [row]),
          db)"

text \<open>
  \<open>UPDATE aggregates SET ... WHERE id = $n\<close>, the assignments given as a function
  on the row; the result lists the rows written (\<open>RETURNING *\<close>).
\<close>

definition updateAggregate :: "int option \<Rightarrow> (aggregate \<Rightarrow> aggregate) \<Rightarrow> aggregate list stmt" where
  "updateAggregate i f db =
     (case i of
        None \<Rightarrow> Inr ([], db)
      | Some k \<Rightarrow>
          (case aggregates db k of
             None \<Rightarrow> Inr ([], db)
           | Some row \<Rightarrow> Inr ([f row], db\<lparr>aggregates := (aggregates db)(k \<mapsto> f row)\<rparr>)))"

definition insertSensorReading :: "sensor_reading \<Rightarrow> sensor_reading list stmt" where
  "insertSensorReading row db = Inr ([row], db\<lparr>sensor_readings := sensor_readings db @ [row]\<rparr>)"

definition insertAggregateLog :: "aggregate_log \<Rightarrow> unit stmt" where
  "insertAggregateLog row db = Inr ((), db\<lparr>aggregate_logs := aggregate_logs db @ [row]\<rparr>)"

text \<open>
  Column types of the schema script. \<open>VARCHAR(n)\<close> holds at most \<open>n\<close> characters:
  storing a longer text raises, unless all the characters beyond the first \<open>n\<close> are
  spaces, and then the text is cut to its first \<open>n\<close> characters. Strings are UTF-8
  byte lists here, so a character is a byte that is not a continuation byte, together
  with the continuation bytes that follow it. \<open>INTEGER\<close> holds the 32-bit signed
  range. \<open>NULL\<close> passes both.
\<close>

definition isContinuation :: "char \<Rightarrow> bool" where
  "isContinuation c = (128 \<le> (of_char c :: nat) \<and> (of_char c :: nat) < 192)"

definition charCount :: "string \<Rightarrow> nat" where
  "charCount s = length (filter (\<lambda>c. \<not> isContinuation c) s)"

fun takeChars :: "nat \<Rightarrow> string \<Rightarrow> string" where
  "takeChars n [] = []"
| "takeChars n (c # cs) =
     (if isContinuation c then c # takeChars n cs
      else (case n of 0 \<Rightarrow> [] | Suc m \<Rightarrow> c # takeChars m cs))"

definition varchar :: "nat \<Rightarrow> string \<Rightarrow> exn + string" where
  "varchar n s =
     (if charCount s \<le> n then Inr s
      else if list_all (\<lambda>c. c = CHR '' '') (drop (length (takeChars n s)) s)
           then Inr (takeChars n s)
           else Inl DbError)"

definition storeVarchar :: "nat \<Rightarrow> string \<Rightarrow> (string \<Rightarrow> exn + 'a) \<Rightarrow> exn + 'a" where
  "storeVarchar n s continue = (case varchar n s of Inl e \<Rightarrow> Inl e | Inr stored \<Rightarrow> continue stored)"

definition storeVarcharNullable ::
    "nat \<Rightarrow> string option \<Rightarrow> (string option \<Rightarrow> exn + 'a) \<Rightarrow> exn + 'a" where
  "storeVarcharNullable n v continue =
     (case v of
        None \<Rightarrow> continue None
      | Some s \<Rightarrow> storeVarchar n s (\<lambda>stored. continue (Some stored)))"

definition int4 :: "int option \<Rightarrow> bool" where
  "int4 v = (case v of None \<Rightarrow> True | Some i \<Rightarrow> - 2147483648 \<le> i \<and> i \<le> 2147483647)"

text \<open>
  \<open>aggregate_replacements\<close>: \<open>tenant_id\<close> is \<open>VARCHAR(100)\<close> and \<open>replaced_by\<close> is
  \<open>VARCHAR(255)\<close> (\<open>reason\<close> is \<open>TEXT\<close>); the three id columns are \<open>INTEGER\<close>;
  \<open>old_aggregate_id\<close> and \<open>new_aggregate_id\<close> reference \<open>aggregates(id)\<close> and
  \<open>wagon_id\<close> references \<open>wagons(id)\<close>; a \<open>NULL\<close> passes a foreign key.
\<close>

definition referencesAggregate :: "database \<Rightarrow> int option \<Rightarrow> bool" where
  "referencesAggregate db i = (case i of None \<Rightarrow> True | Some k \<Rightarrow> aggregates db k \<noteq> None)"

definition referencesWagon :: "database \<Rightarrow> int option \<Rightarrow> bool" where
  "referencesWagon db i = (case i of None \<Rightarrow> True | Some k \<Rightarrow> k \<in> wagons db)"

definition insertReplacement :: "aggregate_replacement \<Rightarrow> unit stmt" where
  "insertReplacement row db =
     storeVarchar 100 (rep_tenant_id row) (\<lambda>tenant.
     storeVarchar 255 (replaced_by row) (\<lambda>byWhom.
       if int4 (rep_old_aggregate_id row) \<and> int4 (rep_new_aggregate_id row) \<and>
          int4 (rep_wagon_id row) \<and>
          referencesAggregate db (rep_old_aggregate_id row) \<and>
          referencesAggregate db (rep_new_aggregate_id row) \<and>
          referencesWagon db (rep_wagon_id row)
       then Inr ((), db\<lparr>aggregate_replacements := aggregate_replacements db @
                      [row\<lparr>rep_tenant_id := tenant, replaced_by := byWhom\<rparr>]\<rparr>)
       else Inl DbError))"

text \<open>
  \<open>audit_logs\<close>: \<open>tenant_id\<close> and \<open>action\<close> are \<open>VARCHAR(100)\<close>, \<open>user_email\<close> and
  \<open>user_name\<close> are \<open>VARCHAR(255)\<close>, \<open>entity_type\<close> and \<open>entity_id\<close> are
  \<open>VARCHAR(50)\<close>; the two snapshots are \<open>JSONB\<close> and \<open>description\<close> is \<open>TEXT\<close>.
\<close>

definition insertAuditLog :: "audit_log \<Rightarrow> unit stmt" where
  "insertAuditLog row db =
     storeVarchar 100 (audit_tenant_id row) (\<lambda>tenant.
     storeVarchar 255 (user_email row) (\<lambda>mail.
     storeVarchar 255 (user_name row) (\<lambda>uname.
     storeVarchar 100 (action row) (\<lambda>act.
     storeVarchar 50 (entity_type row) (\<lambda>etype.
     storeVarchar 50 (entity_id row) (\<lambda>eid.
       Inr ((), db\<lparr>audit_logs := audit_logs db @
              [row\<lparr>audit_tenant_id := tenant, user_email := mail, user_name := uname,
                   action := act, entity_type := etype, entity_id := eid\<rparr>]\<rparr>)))))))"

text \<open>\<open>COALESCE($1, column)\<close>.\<close>

definition coalesce :: "'a option \<Rightarrow> 'a option \<Rightarrow> 'a option" where
  "coalesce v old = (case v of None \<Rightarrow> old | Some x \<Rightarrow> Some x)"

text \<open>
  \<open>UPDATE tenants SET primary_color = COALESCE($1, primary_color), logo_url =
  COALESCE($2, logo_url), updated_at = CURRENT_TIMESTAMP WHERE tenant_id = $3\<close>:
  \<open>primary_color\<close> is \<open>VARCHAR(7)\<close> and \<open>logo_url\<close> is \<open>TEXT\<close>. The new colour is
  computed, and cut to the column's type, for a row that the statement finds; with
  no such row nothing is stored and nothing raises.
\<close>

definition updateTenantBranding :: "string \<Rightarrow> string option \<Rightarrow> string option \<Rightarrow> nat \<Rightarrow> unit stmt" where
  "updateTenantBranding tenant_id color logo now db =
     (case tenants db tenant_id of
        None \<Rightarrow> Inr ((), db)
      | Some t \<Rightarrow>
          storeVarcharNullable 7 (coalesce color (primary_color t)) (\<lambda>stored.
            Inr ((), db\<lparr>tenants := (tenants db)(tenant_id \<mapsto>
                   t\<lparr>primary_color := stored,
                     logo_url := coalesce logo (logo_url t),
                     tenant_updated_at := now\<rparr>)\<rparr>)))"

text \<open>
  \<open>INSERT INTO train_configurations ... ON CONFLICT (tenant_id) DO UPDATE SET\<close> with
  the \<open>EXCLUDED\<close> values: \<open>tenant_id\<close> is \<open>VARCHAR(100)\<close> and references
  \<open>tenants(tenant_id)\<close>, \<open>wagon_count\<close> is \<open>INTEGER NOT NULL\<close> and \<open>wagon_types\<close>
  is \<open>NOT NULL\<close>.
\<close>

definition upsertTrainConfiguration ::
    "string \<Rightarrow> int option \<Rightarrow> json option \<Rightarrow> json option \<Rightarrow> nat \<Rightarrow> unit stmt" where
  "upsertTrainConfiguration tenant_id cnt types labels now db =
     storeVarchar 100 tenant_id (\<lambda>tenant.
       case (cnt, types) of
         (Some n, Some ts) \<Rightarrow>
           if \<not> int4 cnt \<or> tenants db tenant = None then Inl DbError
           else Inr ((), db\<lparr>train_configurations := (train_configurations db)(tenant \<mapsto>
                  \<lparr>wagon_count = n, wagon_types = ts, custom_labels = labels,
                   configuration_updated_at = now\<rparr>)\<rparr>)
       | _ \<Rightarrow> Inl DbError)"

section \<open>Connections, transactions and failures\<close>

text \<open>
  The world a handler runs in: the committed database, which every connection sees;
  the working copy of the transaction that the handler's client has open, if any; the
  number of connections checked out of the pool; and the environment's failures:
  \<open>failing w n\<close> says that round trip number \<open>n\<close> to the store fails for a reason
  outside the tables above (a lost connection, a timeout, a constraint of a table whose
  schema is not in the sources). \<open>trips\<close> counts the round trips made.
\<close>

record world =
  committed :: database
  pending :: "database option"
  held :: nat
  failing :: "nat \<Rightarrow> bool"
  trips :: nat

type_synonym 'a io = "world \<Rightarrow> (exn + 'a) \<times> world"

definition ret :: "'a \<Rightarrow> 'a io" where
  "ret x w = (Inr x, w)"

definition raise :: "exn \<Rightarrow> 'a io" where
  "raise e w = (Inl e, w)"

definition andThen :: "'a io \<Rightarrow> ('a \<Rightarrow> 'b io) \<Rightarrow> 'b io" where
  "andThen m f w = (case m w of (Inl e, w') \<Rightarrow> (Inl e, w') | (Inr x, w') \<Rightarrow> f x w')"

definition tryCatch :: "'a io \<Rightarrow> (exn \<Rightarrow> 'a io) \<Rightarrow> 'a io" where
  "tryCatch m handler w = (case m w of (Inl e, w') \<Rightarrow> handler e w' | (Inr x, w') \<Rightarrow> (Inr x, w'))"

text \<open>\<open>try { m } finally { fin }\<close>: \<open>fin\<close> runs on every exit of \<open>m\<close>.\<close>

definition tryFinally :: "'a io \<Rightarrow> unit io \<Rightarrow> 'a io" where
  "tryFinally m fin w =
     (case m w of
        (r, w') \<Rightarrow> (case fin w' of (Inl e, w'') \<Rightarrow> (Inl e, w'') | (Inr u, w'') \<Rightarrow> (r, w'')))"

definition POOL_MAX :: nat where
  "POOL_MAX = 20"

text \<open>
  \<open>pool.connect()\<close> checks a connection out; with all \<open>max\<close> connections held it
  waits for \<open>connectionTimeoutMillis\<close> and raises. \<open>client.release()\<close> returns it.
\<close>

definition poolConnect :: "unit io" where
  "poolConnect w =
     (if failing w (trips w) \<or> POOL_MAX \<le> held w
      then (Inl DbError, w\<lparr>trips := trips w + 1\<rparr>)
      else (Inr (), w\<lparr>trips := trips w + 1, held := held w + 1\<rparr>))"

definition clientRelease :: "unit io" where
  "clientRelease w = (Inr (), w\<lparr>held := held w - 1\<rparr>)"

text \<open>
  \<open>client.query\<close> of a statement: inside an open transaction it works on the working
  copy, outside it commits at once.
\<close>

definition clientQuery :: "'a stmt \<Rightarrow> 'a io" where
  "clientQuery q w =
     (if failing w (trips w) then (Inl DbError, w\<lparr>trips := trips w + 1\<rparr>)
      else (case pending w of
              Some db \<Rightarrow>
                (case q db of
                   Inl e \<Rightarrow> (Inl e, w\<lparr>trips := trips w + 1\<rparr>)
                 | Inr (x, db') \<Rightarrow> (Inr x, w\<lparr>trips := trips w + 1, pending := Some db'\<rparr>))
            | None \<Rightarrow>
                (case q (committed w) of
                   Inl e \<Rightarrow> (Inl e, w\<lparr>trips := trips w + 1\<rparr>)
                 | Inr (x, db') \<Rightarrow> (Inr x, w\<lparr>trips := trips w + 1, committed := db'\<rparr>))))"

definition clientBegin :: "unit io" where
  "clientBegin w =
     (if failing w (trips w) then (Inl DbError, w\<lparr>trips := trips w + 1\<rparr>)
      else (Inr (), w\<lparr>trips := trips w + 1,
                      pending := Some (case pending w of Some db \<Rightarrow> db | None \<Rightarrow> committed w)\<rparr>))"

definition clientCommit :: "unit io" where
  "clientCommit w =
     (if failing w (trips w) then (Inl DbError, w\<lparr>trips := trips w + 1\<rparr>)
      else (Inr (), w\<lparr>trips := trips w + 1,
                      committed := (case pending w of Some db \<Rightarrow> db | None \<Rightarrow> committed w),
                      pending := None\<rparr>))"

definition clientRollback :: "unit io" where
  "clientRollback w =
     (if failing w (trips w) then (Inl DbError, w\<lparr>trips := trips w + 1\<rparr>)
      else (Inr (), w\<lparr>trips := trips w + 1, pending := None\<rparr>))"

text \<open>
  \<open>pool.query\<close>: one statement on a connection of its own, taken from the pool and
  returned, committed at once.
\<close>

definition poolQuery :: "'a stmt \<Rightarrow> 'a io" where
  "poolQuery q w =
     (if failing w (trips w) \<or> POOL_MAX \<le> held w then (Inl DbError, w\<lparr>trips := trips w + 1\<rparr>)
      else (case q (committed w) of
              Inl e \<Rightarrow> (Inl e, w\<lparr>trips := trips w + 1\<rparr>)
            | Inr (x, db') \<Rightarrow> (Inr x, w\<lparr>trips := trips w + 1, committed := db'\<rparr>)))"

section \<open>Lifecycle handlers\<close>

text \<open>
  A handler's reply: the status code and the body. A value that the handler returns is
  sent with status \<open>200\<close>. \<open>ErrorMsg\<close> is the body's \<open>error\<close> member (the
  \<open>details\<close> member of the cars module, the raised error's text, is left out),
  \<open>Success\<close> the \<open>message\<close> member of a \<open>success: true\<close> body. A handler whose
  result is \<open>Inl\<close> ended by raising; the framework then answers for it.
\<close>

datatype payload = ErrorMsg string | Success string | AggregateRow aggregate | ReadingRow sensor_reading

datatype response = Reply nat payload

text \<open>
  Values from a request body are \<open>None\<close> when the member is missing. In a template
  literal a missing value prints as \<open>undefined\<close>; \<open>JSON.stringify\<close> leaves a
  missing member out and writes a \<open>NULL\<close> column as \<open>null\<close>; \<open>.toString()\<close> on a
  missing value raises a \<open>TypeError\<close>.
\<close>

definition templateString :: "string option \<Rightarrow> string" where
  "templateString v = (case v of None \<Rightarrow> ''undefined'' | Some x \<Rightarrow> x)"

definition templateId :: "int option \<Rightarrow> string" where
  "templateId v = (case v of None \<Rightarrow> ''undefined'' | Some i \<Rightarrow> showInt i)"

definition idToString :: "int option \<Rightarrow> string io" where
  "idToString v = (case v of None \<Rightarrow> raise TypeError | Some i \<Rightarrow> ret (showInt i))"

definition jsonMember :: "string \<Rightarrow> int option \<Rightarrow> (string \<times> json) list" where
  "jsonMember key v = (case v of None \<Rightarrow> [] | Some i \<Rightarrow> [(key, JInt i)])"

definition jsonColumn :: "int option \<Rightarrow> json" where
  "jsonColumn v = (case v of None \<Rightarrow> JNull | Some i \<Rightarrow> JInt i)"

text \<open>\<open>rows[0]\<close> of a query result; reading a property of it raises when there is no row.\<close>

definition firstRow :: "'a list \<Rightarrow> 'a io" where
  "firstRow rows = (case rows of [] \<Rightarrow> raise TypeError | row # rest \<Rightarrow> ret row)"

subsection \<open>Database routes: assign, record a reading\<close>

text \<open>\<open>POST /api/aggregates/:id/assign\<close> with body \<open>{ wagon_id }\<close>.\<close>

definition assign :: "int \<Rightarrow> int option \<Rightarrow> response io" where
  "assign aid wagon_id =
     andThen poolConnect (\<lambda>client.
       tryFinally
         (tryCatch
            (andThen clientBegin (\<lambda>u.
             andThen (clientQuery (selectAggregate (Some aid))) (\<lambda>oldResult.
             andThen (clientQuery (updateAggregate (Some aid)
                        (\<lambda>a. a\<lparr>current_wagon_id := wagon_id\<rparr>))) (\<lambda>result.
               case result of
                 [] \<Rightarrow>
                   andThen clientRollback (\<lambda>u. ret (Reply 404 (ErrorMsg ''Aggregate not found'')))
               | row # rest \<Rightarrow>
                   andThen (firstRow oldResult) (\<lambda>oldRow.
                   andThen (clientQuery (insertAggregateLog
                              \<lparr>log_aggregate_id = aid, log_wagon_id = wagon_id,
                               event_type = ''moved'',
                               log_description = ''Aggregate reassigned to different wagon'',
                               log_old_value = JObject [(''wagon_id'', jsonColumn (current_wagon_id oldRow))],
                               log_new_value = JObject (jsonMember ''wagon_id'' wagon_id)\<rparr>)) (\<lambda>u.
                   andThen clientCommit (\<lambda>u.
                   ret (Reply 200 (AggregateRow row)))))))))
            (\<lambda>error.
               andThen clientRollback (\<lambda>u. ret (Reply 500 (ErrorMsg ''Failed to assign aggregate'')))))
         clientRelease)"

record ReadingBody =
  body_temperature :: "rat option"
  body_pressure :: "rat option"
  body_humidity :: "rat option"
  body_power_consumption :: "rat option"
  body_error_codes :: "string option"

text \<open>\<open>POST /api/aggregates/:id/readings\<close>: two statements, each through \<open>pool.query\<close>.\<close>

definition recordReading :: "int \<Rightarrow> ReadingBody \<Rightarrow> response io" where
  "recordReading aid body =
     tryCatch
       (andThen (poolQuery (insertSensorReading
                   \<lparr>reading_aggregate_id = aid, temperature = body_temperature body,
                    pressure = body_pressure body, humidity = body_humidity body,
                    power_consumption = body_power_consumption body,
                    error_codes = body_error_codes body\<rparr>)) (\<lambda>result.
        andThen (poolQuery (updateAggregate (Some aid)
                   (\<lambda>a. a\<lparr>current_temperature := body_temperature body,
                          pressure_value := body_pressure body\<rparr>))) (\<lambda>updated.
        andThen (firstRow result) (\<lambda>row.
        ret (Reply 200 (ReadingRow row))))))
       (\<lambda>error. ret (Reply 500 (ErrorMsg ''Failed to record reading'')))"

subsection \<open>Admin routes: replace (both admin modules)\<close>

record ReplaceBody =
  old_aggregate_id :: "int option"
  new_aggregate_id :: "int option"
  reason :: "string option"
  car_id :: "int option"

text \<open>\<open>request.user?.tenantId || 'default'\<close>, with the user that \<open>authenticate\<close> set.\<close>

definition requestTenant :: "UserInfo \<Rightarrow> string" where
  "requestTenant user = orDefault (Some (tenantId user)) ''default''"

text \<open>
  \<open>POST /api/aggregates/replace\<close>, first admin module: a missing old aggregate is
  answered \<open>404\<close> after \<open>ROLLBACK\<close>.
\<close>

definition replaceAggregate :: "UserInfo \<Rightarrow> ReplaceBody \<Rightarrow> response io" where
  "replaceAggregate user body =
     andThen poolConnect (\<lambda>client.
       tryFinally
         (tryCatch
            (andThen clientBegin (\<lambda>u.
             andThen (clientQuery (selectAggregate (old_aggregate_id body))) (\<lambda>oldAgg.
               case oldAgg of
                 [] \<Rightarrow>
                   andThen clientRollback (\<lambda>u. ret (Reply 404 (ErrorMsg ''Old aggregate not found'')))
               | oldRow # rest \<Rightarrow>
                   andThen (clientQuery (updateAggregate (old_aggregate_id body)
                              (\<lambda>a. a\<lparr>current_wagon_id := None, is_spare := True,
                                     status := ''maintenance''\<rparr>))) (\<lambda>r1.
                   andThen (clientQuery (updateAggregate (new_aggregate_id body)
                              (\<lambda>a. a\<lparr>current_wagon_id := current_wagon_id oldRow, is_spare := False,
                                     status := ''operational''\<rparr>))) (\<lambda>r2.
                   andThen (clientQuery (insertReplacement
                              \<lparr>rep_tenant_id = requestTenant user,
                               rep_old_aggregate_id = old_aggregate_id body,
                               rep_new_aggregate_id = new_aggregate_id body,
                               rep_wagon_id = current_wagon_id oldRow,
                               rep_reason = reason body,
                               replaced_by = email user\<rparr>)) (\<lambda>u.
                   andThen (idToString (old_aggregate_id body)) (\<lambda>entity.
                   andThen (clientQuery (insertAuditLog
                              \<lparr>audit_tenant_id = requestTenant user,
                               user_email = email user,
                               user_name = userName user,
                               action = ''REPLACE'',
                               entity_type = ''aggregate'',
                               entity_id = entity,
                               old_value = Some (JObject
                                 (jsonMember ''aggregate_id'' (old_aggregate_id body) @
                                  [(''wagon_id'', jsonColumn (current_wagon_id oldRow))])),
                               new_value = Some (JObject
                                 (jsonMember ''aggregate_id'' (new_aggregate_id body) @
                                  [(''wagon_id'', jsonColumn (current_wagon_id oldRow))])),
                               description = ''Replaced aggregate '' @ aggregate_number oldRow @
                                 '' with spare. Reason: '' @ templateString (reason body)\<rparr>)) (\<lambda>u.
                   andThen clientCommit (\<lambda>u.
                   ret (Reply 200 (Success ''Aggregate replaced successfully'')))))))))))
            (\<lambda>error.
               andThen clientRollback (\<lambda>u. ret (Reply 500 (ErrorMsg ''Failed to replace aggregate'')))))
         clientRelease)"

text \<open>
  \<open>POST /api/aggregates/replace\<close>, second admin module: a missing old aggregate
  raises \<open>Error('Old aggregate not found')\<close> inside the \<open>try\<close> block.
\<close>

definition replaceAggregate2 :: "UserInfo \<Rightarrow> ReplaceBody \<Rightarrow> response io" where
  "replaceAggregate2 user body =
     andThen poolConnect (\<lambda>client.
       tryFinally
         (tryCatch
            (andThen clientBegin (\<lambda>u.
             andThen (clientQuery (selectAggregate (old_aggregate_id body))) (\<lambda>oldAggResult.
               case oldAggResult of
                 [] \<Rightarrow> raise (AppError ''Old aggregate not found'')
               | oldRow # rest \<Rightarrow>
                   andThen (clientQuery (updateAggregate (old_aggregate_id body)
                              (\<lambda>a. a\<lparr>is_spare := True, current_wagon_id := None,
                                     status := ''maintenance''\<rparr>))) (\<lambda>r1.
                   andThen (clientQuery (updateAggregate (new_aggregate_id body)
                              (\<lambda>a. a\<lparr>is_spare := False, current_wagon_id := current_wagon_id oldRow,
                                     status := ''operational''\<rparr>))) (\<lambda>r2.
                   andThen (clientQuery (insertReplacement
                              \<lparr>rep_tenant_id = requestTenant user,
                               rep_old_aggregate_id = old_aggregate_id body,
                               rep_new_aggregate_id = new_aggregate_id body,
                               rep_wagon_id = current_wagon_id oldRow,
                               rep_reason = reason body,
                               replaced_by = email user\<rparr>)) (\<lambda>u.
                   andThen (idToString (new_aggregate_id body)) (\<lambda>entity.
                   andThen (clientQuery (insertAuditLog
                              \<lparr>audit_tenant_id = requestTenant user,
                               user_email = email user,
                               user_name = userName user,
                               action = ''REPLACE'',
                               entity_type = ''aggregate'',
                               entity_id = entity,
                               old_value = None,
                               new_value = None,
                               description = ''Replaced aggregate '' @ templateId (old_aggregate_id body) @
                                 '' with '' @ templateId (new_aggregate_id body) @ '': '' @
                                 templateString (reason body)\<rparr>)) (\<lambda>u.
                   andThen clientCommit (\<lambda>u.
                   ret (Reply 200 (Success ''Aggregate replaced successfully'')))))))))))
            (\<lambda>error.
               andThen clientRollback (\<lambda>u. ret (Reply 500 (ErrorMsg ''Failed to replace aggregate'')))))
         clientRelease)"

subsection \<open>Cars module: move, unassign, swap, replace\<close>

text \<open>\<open>POST /api/aggregates/:id/move/:carId\<close>: one statement through \<open>pool.query\<close>.\<close>

definition moveAggregate :: "nat \<Rightarrow> int \<Rightarrow> int \<Rightarrow> response io" where
  "moveAggregate now aid carId =
     tryCatch
       (andThen (poolQuery (updateAggregate (Some aid)
                   (\<lambda>a. a\<lparr>current_wagon_id := Some carId, updated_at := now\<rparr>))) (\<lambda>result.
          case result of
            [] \<Rightarrow> ret (Reply 404 (ErrorMsg ''Aggregate not found''))
          | row # rest \<Rightarrow> ret (Reply 200 (AggregateRow row))))
       (\<lambda>error. ret (Reply 500 (ErrorMsg ''Failed to move aggregate'')))"

text \<open>\<open>POST /api/aggregates/:id/unassign\<close>.\<close>

definition unassignAggregate :: "nat \<Rightarrow> int \<Rightarrow> response io" where
  "unassignAggregate now aid =
     tryCatch
       (andThen (poolQuery (updateAggregate (Some aid)
                   (\<lambda>a. a\<lparr>current_wagon_id := None, status := ''reserve'', updated_at := now\<rparr>))) (\<lambda>result.
          case result of
            [] \<Rightarrow> ret (Reply 404 (ErrorMsg ''Aggregate not found''))
          | row # rest \<Rightarrow> ret (Reply 200 (AggregateRow row))))
       (\<lambda>error. ret (Reply 500 (ErrorMsg ''Failed to unassign aggregate'')))"

text \<open>\<open>POST /api/aggregates/:id/swap\<close> with body \<open>{ target_aggregate_id }\<close>.\<close>

definition swapAggregates :: "nat \<Rightarrow> int \<Rightarrow> int option \<Rightarrow> response io" where
  "swapAggregates now aid target_aggregate_id =
     tryCatch
       (andThen poolConnect (\<lambda>client.
          tryFinally
            (tryCatch
               (andThen clientBegin (\<lambda>u.
                andThen (clientQuery (selectAggregate (Some aid))) (\<lambda>agg1.
                andThen (clientQuery (selectAggregate target_aggregate_id)) (\<lambda>agg2.
                  if agg1 = [] \<or> agg2 = []
                  then andThen clientRollback (\<lambda>u.
                         ret (Reply 404 (ErrorMsg ''One or both aggregates not found'')))
                  else
                    andThen (firstRow agg1) (\<lambda>row1.
                    andThen (firstRow agg2) (\<lambda>row2.
                    andThen (clientQuery (updateAggregate (Some aid)
                               (\<lambda>a. a\<lparr>current_wagon_id := current_wagon_id row2,
                                      updated_at := now\<rparr>))) (\<lambda>r1.
                    andThen (clientQuery (updateAggregate target_aggregate_id
                               (\<lambda>a. a\<lparr>current_wagon_id := current_wagon_id row1,
                                      updated_at := now\<rparr>))) (\<lambda>r2.
                    andThen clientCommit (\<lambda>u.
                    ret (Reply 200 (Success ''Aggregates swapped successfully'')))))))))))
               (\<lambda>error. andThen clientRollback (\<lambda>u. raise error)))
            clientRelease))
       (\<lambda>error. ret (Reply 500 (ErrorMsg ''Failed to swap aggregates'')))"

text \<open>
  \<open>POST /api/aggregates/replace\<close> of the cars module, with body
  \<open>{ old_aggregate_id, new_aggregate_id, car_id }\<close>.
\<close>

definition replaceAggregateCars :: "nat \<Rightarrow> ReplaceBody \<Rightarrow> response io" where
  "replaceAggregateCars now body =
     tryCatch
       (andThen poolConnect (\<lambda>client.
          tryFinally
            (tryCatch
               (andThen clientBegin (\<lambda>u.
                andThen (clientQuery (updateAggregate (old_aggregate_id body)
                           (\<lambda>a. a\<lparr>current_wagon_id := None, status := ''reserve'',
                                  updated_at := now\<rparr>))) (\<lambda>r1.
                andThen (clientQuery (updateAggregate (new_aggregate_id body)
                           (\<lambda>a. a\<lparr>current_wagon_id := car_id body, status := ''operational'',
                                  updated_at := now\<rparr>))) (\<lambda>r2.
                andThen clientCommit (\<lambda>u.
                ret (Reply 200 (Success ''Aggregate replaced successfully'')))))))
               (\<lambda>error. andThen clientRollback (\<lambda>u. raise error)))
            clientRelease))
       (\<lambda>error. ret (Reply 500 (ErrorMsg ''Failed to replace aggregate'')))"

subsection \<open>Admin routes: tenant configuration (second admin module)\<close>

record ConfigurationBody =
  body_wagon_count :: "int option"
  body_wagon_types :: "string list option"
  body_custom_labels :: "(string \<times> string) list option"
  body_primary_color :: "string option"
  body_logo_url :: "string option"

text \<open>
  \<open>PUT /api/tenants/:tenant_id/configuration\<close>: the connection is taken inside the
  \<open>try\<close> block and released after \<open>COMMIT\<close>; the \<open>catch\<close> block only answers
  \<open>500\<close>. \<open>JSON.stringify\<close> of a missing member is \<open>undefined\<close>, which the
  driver sends as \<open>NULL\<close>.
\<close>

definition putTenantConfiguration :: "nat \<Rightarrow> string \<Rightarrow> ConfigurationBody \<Rightarrow> response io" where
  "putTenantConfiguration now tenant_id body =
     tryCatch
       (andThen poolConnect (\<lambda>client.
        andThen clientBegin (\<lambda>u.
        andThen (clientQuery (updateTenantBranding tenant_id
                   (body_primary_color body) (body_logo_url body) now)) (\<lambda>u.
        andThen (clientQuery (upsertTrainConfiguration tenant_id
                   (body_wagon_count body)
                   (map_option (\<lambda>ts. JArray (map JString ts)) (body_wagon_types body))
                   (map_option (\<lambda>ls. JObject (map (\<lambda>(k, v). (k, JString v)) ls)) (body_custom_labels body))
                   now)) (\<lambda>u.
        andThen clientCommit (\<lambda>u.
        andThen clientRelease (\<lambda>u.
        ret (Reply 200 (Success ''Tenant configuration updated'')))))))))
       (\<lambda>error. ret (Reply 500 (ErrorMsg ''Failed to update tenant configuration'')))"

text \<open>
  The attached-and-spare invariant of one row and of a database, and the two
  conditions on a world that the results below assume where they say so: no round
  trip fails for an outside reason, and the handler starts with no transaction open
  and a connection free.
\<close>

definition rowConsistent :: "aggregate \<Rightarrow> bool" where
  "rowConsistent a = (\<not> (current_wagon_id a \<noteq> None \<and> is_spare a))"

definition consistent :: "database \<Rightarrow> bool" where
  "consistent db = (\<forall>k row. aggregates db k = Some row \<longrightarrow> rowConsistent row)"

definition reliable :: "world \<Rightarrow> bool" where
  "reliable w = (\<forall>n. \<not> failing w n)"

definition idle :: "world \<Rightarrow> bool" where
  "idle w = (pending w = None \<and> held w < POOL_MAX)"

text \<open>
  What the results below observe of a database: the wagon reference and the spare flag
  of each aggregate key.
\<close>

definition wagonOf :: "database \<Rightarrow> int \<Rightarrow> int option option" where
  "wagonOf db k = map_option current_wagon_id (aggregates db k)"

definition spareFlag :: "database \<Rightarrow> int \<Rightarrow> bool option" where
  "spareFlag db k = map_option is_spare (aggregates db k)"

text \<open>
  Two properties of computations that run on the client inside an open transaction:
  \<open>inTransaction m\<close> says that \<open>m\<close> leaves the committed database alone and the
  transaction open; \<open>commitsOnlyWith P m\<close> says that \<open>m\<close> changes the committed
  database only when it ends with a reply that satisfies \<open>P\<close>.
\<close>

definition inTransaction :: "'a io \<Rightarrow> bool" where
  "inTransaction m =
     (\<forall>w. pending w \<noteq> None \<longrightarrow>
        committed (snd (m w)) = committed w \<and> pending (snd (m w)) \<noteq> None)"

definition commitsOnlyWith :: "(response \<Rightarrow> bool) \<Rightarrow> response io \<Rightarrow> bool" where
  "commitsOnlyWith P m =
     (\<forall>w. pending w \<noteq> None \<longrightarrow>
        (\<exists>r. fst (m w) = Inr r \<and> P r) \<or> committed (snd (m w)) = committed w)"

text \<open>
  Two more, for properties that hold on every path of a handler: \<open>keeps Q m\<close> says
  that \<open>m\<close> ends in a world that satisfies \<open>Q\<close> whenever it starts in one, whether it
  returns or raises; \<open>everywhere I w\<close> says that the committed database of \<open>w\<close> and
  the working copy of its open transaction, if any, both satisfy \<open>I\<close>.
\<close>

definition keeps :: "(world \<Rightarrow> bool) \<Rightarrow> 'a io \<Rightarrow> bool" where
  "keeps Q m = (\<forall>w. Q w \<longrightarrow> Q (snd (m w)))"

definition everywhere :: "(database \<Rightarrow> bool) \<Rightarrow> world \<Rightarrow> bool" where
  "everywhere I w = (I (committed w) \<and> (case pending w of None \<Rightarrow> True | Some db \<Rightarrow> I db))"

section \<open>A concrete fleet\<close>

text \<open>
  The scenario of the specification: aggregate 10 is attached to wagon 7, aggregate 20
  is a spare, aggregate 30 is attached to wagon 8; the tenant \<open>default\<close> and its
  train configuration are the rows that the schema script seeds. No connection is
  held and no round trip fails.
\<close>

definition exampleDb :: database where
  "exampleDb =
     \<lparr>aggregates =
        [10 \<mapsto> \<lparr>aggregate_number = ''AGG-10'', status = ''operational'',
                 current_wagon_id = Some 7, is_spare = False,
                 current_temperature = None, pressure_value = None, updated_at = 0\<rparr>,
         20 \<mapsto> \<lparr>aggregate_number = ''AGG-20'', status = ''reserve'',
                 current_wagon_id = None, is_spare = True,
                 current_temperature = None, pressure_value = None, updated_at = 0\<rparr>,
         30 \<mapsto> \<lparr>aggregate_number = ''AGG-30'', status = ''operational'',
                 current_wagon_id = Some 8, is_spare = False,
                 current_temperature = None, pressure_value = None, updated_at = 0\<rparr>],
      wagons = {7, 8},
      sensor_readings = [],
      aggregate_logs = [],
      aggregate_replacements = [],
      audit_logs = [],
      tenants =
        [''default'' \<mapsto> \<lparr>tenant_name = tenantName (hd DEFAULT_TENANT_MAPPINGS), logo_url = None,
                          primary_color = Some ''#3B82F6'', tenant_updated_at = 0\<rparr>],
      train_configurations =
        [''default'' \<mapsto> \<lparr>wagon_count = 5,
                          wagon_types = JArray [JString ''M43 Hytt'', JString ''M43 Salong'',
                            JString ''T47 Salong'', JString ''M45 Salong'', JString ''M45 Hytt''],
                          custom_labels = Some (JObject
                            [(''M43 Hytt'', JString ''Motorvagn 43 Hytt''),
                             (''M43 Salong'', JString ''Motorvagn 43 Salong''),
                             (''T47 Salong'', JString ''Trailvagn 47 Salong''),
                             (''M45 Salong'', JString ''Motorvagn 45 Salong''),
                             (''M45 Hytt'', JString ''Motorvagn 45 Hytt'')]),
                          configuration_updated_at = 0\<rparr>]\<rparr>"

definition exampleWorld :: world where
  "exampleWorld = \<lparr>committed = exampleDb, pending = None, held = 0, failing = (\<lambda>n. False), trips = 0\<rparr>"

definition exampleUser :: UserInfo where
  "exampleUser = devUser ''71416bf2-04a4-4715-a8d2-6af239168e20''"

section \<open>Auxiliary facts\<close>

declare showNat.simps [simp del]

lemmas io_defs = ret_def raise_def andThen_def tryCatch_def tryFinally_def poolConnect_def
  clientRelease_def clientQuery_def clientBegin_def clientCommit_def clientRollback_def
  poolQuery_def firstRow_def idToString_def

lemmas stmt_defs = selectAggregate_def updateAggregate_def insertSensorReading_def
  insertAggregateLog_def insertReplacement_def insertAuditLog_def updateTenantBranding_def
  upsertTrainConfiguration_def referencesAggregate_def referencesWagon_def

lemmas example_defs = exampleWorld_def exampleDb_def exampleUser_def devUser_def

lemma example_reliable: "reliable exampleWorld"
  by (simp add: reliable_def exampleWorld_def)

lemma example_idle: "idle exampleWorld"
  by (simp add: idle_def exampleWorld_def POOL_MAX_def)

lemma example_consistent: "consistent exampleDb"
  by (auto simp add: consistent_def rowConsistent_def exampleDb_def split: if_splits)

text \<open>
  A text that fits its column is stored as it is; the decimal digits of a 32-bit
  integer fit \<open>VARCHAR(50)\<close>.
\<close>

lemmas column_defs = storeVarchar_def storeVarcharNullable_def varchar_def charCount_def
  isContinuation_def int4_def

lemma varchar_fits: "charCount s \<le> n \<Longrightarrow> varchar n s = Inr s"
  by (simp add: varchar_def)

lemma storeVarchar_fits: "charCount s \<le> n \<Longrightarrow> storeVarchar n s continue = continue s"
  by (simp add: storeVarchar_def varchar_fits)

lemma showNat_length: "n < 10 ^ k \<Longrightarrow> 0 < k \<Longrightarrow> length (showNat n) \<le> k"
proof (induction n arbitrary: k rule: showNat.induct)
  case (1 n)
  show ?case
  proof (cases "n < 10")
    case True
    with 1(3) show ?thesis by (subst showNat.simps) simp
  next
    case False
    with 1(2) have "1 < k"
      by (metis One_nat_def Suc_lessI "1.prems"(2) not_less_eq power_one_right linorder_not_less order.strict_trans2 nat_less_le)
    then obtain j where k: "k = Suc j" and j: "0 < j" by (cases k) auto
    from 1(2) k have "n div 10 < 10 ^ j" by (simp add: less_mult_imp_div_less mult.commute)
    from 1(1) [OF False this j] k False show ?thesis
      by (subst showNat.simps) simp
  qed
qed

lemma showNat_ascii: "c \<in> set (showNat n) \<Longrightarrow> \<not> isContinuation c"
proof (induction n rule: showNat.induct)
  case (1 n)
  show ?case
  proof (cases "n < 10")
    case True
    with 1(2) show ?thesis
      by (subst (asm) showNat.simps) (simp add: isContinuation_def)
  next
    case False
    have "(48 + n mod 10) mod 256 = 48 + n mod 10" by simp
    with 1(2) False 1(1) [OF False] show ?thesis
      by (subst (asm) showNat.simps) (auto simp add: isContinuation_def)
  qed
qed

lemma charCount_showNat: "charCount (showNat n) = length (showNat n)"
  by (simp add: charCount_def showNat_ascii)

lemma charCount_showInt: "int4 (Some i) \<Longrightarrow> charCount (showInt i) \<le> 50"
proof -
  assume a: "int4 (Some i)"
  then have "- 2147483648 \<le> i" "i \<le> 2147483647" by (simp_all add: int4_def)
  then have "\<bar>i\<bar> < 10000000000" by linarith
  then have "nat \<bar>i\<bar> < nat 10000000000" by (simp only: nat_less_eq_zless abs_ge_zero)
  then have "nat \<bar>i\<bar> < 10 ^ 10" by simp
  then have l: "length (showNat (nat \<bar>i\<bar>)) \<le> 10" by (rule showNat_length) simp
  have m: "charCount (''-'' @ s) = Suc (charCount s)" for s
    by (simp add: charCount_def isContinuation_def)
  show ?thesis
  proof (cases "i < 0")
    case True
    then have "\<bar>i\<bar> = - i" by linarith
    with l have "length (showNat (nat (- i))) \<le> 10" by (simp only:)
    with True show ?thesis by (simp add: showInt_def m charCount_showNat del: append.simps)
  next
    case False
    then have "\<bar>i\<bar> = i" by linarith
    with l have "length (showNat (nat i)) \<le> 10" by (simp only:)
    with False show ?thesis by (simp add: showInt_def charCount_showNat)
  qed
qed

lemma charCount_constants:
  "charCount ''REPLACE'' \<le> 100" "charCount ''aggregate'' \<le> 50"
  by (simp_all add: charCount_def isContinuation_def)


section \<open>Atomicity of the transactional handlers\<close>

lemma inTransaction_clientQuery: "inTransaction (clientQuery q)"
  by (auto simp add: inTransaction_def clientQuery_def split: sum.splits option.splits)

lemma inTransaction_pure:
  "inTransaction (ret x)" "inTransaction (raise e)" "inTransaction (firstRow rows)"
  "inTransaction (idToString v)"
  by (auto simp add: inTransaction_def ret_def raise_def firstRow_def idToString_def
      split: list.splits option.splits)

lemma commitsOnlyWith_andThen:
  assumes "inTransaction m" and "\<And>x. commitsOnlyWith P (f x)"
  shows "commitsOnlyWith P (andThen m f)"
  unfolding commitsOnlyWith_def
proof (intro allI impI)
  fix w :: world assume p: "pending w \<noteq> None"
  obtain r w' where m: "m w = (r, w')" by (cases "m w")
  from assms(1) p m have c: "committed w' = committed w" and p': "pending w' \<noteq> None"
    by (auto simp add: inTransaction_def)
  show "(\<exists>r. fst (andThen m f w) = Inr r \<and> P r) \<or> committed (snd (andThen m f w)) = committed w"
  proof (cases r)
    case (Inl e)
    with m c show ?thesis by (simp add: andThen_def)
  next
    case (Inr x)
    from assms(2) [of x] p' have
      "(\<exists>r. fst (f x w') = Inr r \<and> P r) \<or> committed (snd (f x w')) = committed w'"
      by (simp add: commitsOnlyWith_def)
    with Inr m c show ?thesis by (simp add: andThen_def)
  qed
qed

lemma commitsOnlyWith_commit:
  "P r \<Longrightarrow> commitsOnlyWith P (andThen clientCommit (\<lambda>u. ret r))"
  by (simp add: commitsOnlyWith_def andThen_def clientCommit_def ret_def)

lemma commitsOnlyWith_rollback:
  "commitsOnlyWith P (andThen clientRollback (\<lambda>u. ret r))"
  by (simp add: commitsOnlyWith_def andThen_def clientRollback_def ret_def)

lemma commitsOnlyWith_raise: "commitsOnlyWith P (raise e)"
  by (simp add: commitsOnlyWith_def raise_def)

lemma commitsOnlyWith_list:
  assumes "commitsOnlyWith P a" and "\<And>x xs. commitsOnlyWith P (b x xs)"
  shows "commitsOnlyWith P (case l of [] \<Rightarrow> a | x # xs \<Rightarrow> b x xs)"
  using assms by (cases l) simp_all

lemma commitsOnlyWith_if:
  assumes "commitsOnlyWith P a" and "commitsOnlyWith P b"
  shows "commitsOnlyWith P (if c then a else b)"
  using assms by simp

text \<open>
  The two frames that the handlers put around a transaction body: \<open>ROLLBACK\<close> and a
  \<open>500\<close> reply in the \<open>catch\<close> block, or \<open>ROLLBACK\<close> and a re-raise that an outer
  \<open>catch\<close> answers.
\<close>

lemma frame_finally:
  assumes "commitsOnlyWith P body" and "pending w = None"
  shows "(\<exists>r. fst (andThen poolConnect (\<lambda>client.
             tryFinally (tryCatch (andThen clientBegin (\<lambda>u. body))
                           (\<lambda>error. andThen clientRollback (\<lambda>u. ret failed)))
               clientRelease) w) = Inr r \<and> P r) \<or>
     committed (snd (andThen poolConnect (\<lambda>client.
             tryFinally (tryCatch (andThen clientBegin (\<lambda>u. body))
                           (\<lambda>error. andThen clientRollback (\<lambda>u. ret failed)))
               clientRelease) w)) = committed w"
proof -
  let ?w1 = "w\<lparr>trips := trips w + 1, held := held w + 1\<rparr>"
  let ?w2 = "?w1\<lparr>trips := trips ?w1 + 1, pending := Some (committed w)\<rparr>"
  have p2: "pending ?w2 \<noteq> None" by simp
  from assms(1) p2 have b:
    "(\<exists>r. fst (body ?w2) = Inr r \<and> P r) \<or> committed (snd (body ?w2)) = committed ?w2"
    unfolding commitsOnlyWith_def by blast
  obtain r w3 where bw: "body ?w2 = (r, w3)" by (cases "body ?w2")
  show ?thesis
    using b assms(2) bw
    by (auto simp add: andThen_def poolConnect_def tryFinally_def tryCatch_def clientBegin_def
        clientRollback_def clientRelease_def ret_def split: sum.splits prod.splits)
qed



lemma frame_rethrow:
  assumes "commitsOnlyWith P body" and "pending w = None"
  shows "(\<exists>r. fst (tryCatch (andThen poolConnect (\<lambda>client.
             tryFinally (tryCatch (andThen clientBegin (\<lambda>u. body))
                           (\<lambda>error. andThen clientRollback (\<lambda>u. raise error)))
               clientRelease))
             (\<lambda>error. ret failed) w) = Inr r \<and> P r) \<or>
     committed (snd (tryCatch (andThen poolConnect (\<lambda>client.
             tryFinally (tryCatch (andThen clientBegin (\<lambda>u. body))
                           (\<lambda>error. andThen clientRollback (\<lambda>u. raise error)))
               clientRelease))
             (\<lambda>error. ret failed) w)) = committed w"
proof -
  let ?w1 = "w\<lparr>trips := trips w + 1, held := held w + 1\<rparr>"
  let ?w2 = "?w1\<lparr>trips := trips ?w1 + 1, pending := Some (committed w)\<rparr>"
  have p2: "pending ?w2 \<noteq> None" by simp
  from assms(1) p2 have b:
    "(\<exists>r. fst (body ?w2) = Inr r \<and> P r) \<or> committed (snd (body ?w2)) = committed ?w2"
    unfolding commitsOnlyWith_def by blast
  obtain r w3 where bw: "body ?w2 = (r, w3)" by (cases "body ?w2")
  show ?thesis
    using b assms(2) bw
    by (auto simp add: andThen_def poolConnect_def tryFinally_def tryCatch_def clientBegin_def
        clientRollback_def clientRelease_def ret_def raise_def split: sum.splits prod.splits)
qed

text \<open>
  Whatever round trips fail, a transactional lifecycle handler that starts with no
  transaction open either answers with its success reply or leaves the committed
  database as it was.
\<close>

lemma transactions_atomic:
  assumes "pending w = None"
  shows
    "(\<exists>row. fst (assign a wid w) = Inr (Reply 200 (AggregateRow row))) \<or>
       committed (snd (assign a wid w)) = committed w"
    "fst (replaceAggregate user body w) =
         Inr (Reply 200 (Success ''Aggregate replaced successfully'')) \<or>
       committed (snd (replaceAggregate user body w)) = committed w"
    "fst (replaceAggregate2 user body w) =
         Inr (Reply 200 (Success ''Aggregate replaced successfully'')) \<or>
       committed (snd (replaceAggregate2 user body w)) = committed w"
    "fst (swapAggregates now a tb w) =
         Inr (Reply 200 (Success ''Aggregates swapped successfully'')) \<or>
       committed (snd (swapAggregates now a tb w)) = committed w"
    "fst (replaceAggregateCars now body w) =
         Inr (Reply 200 (Success ''Aggregate replaced successfully'')) \<or>
       committed (snd (replaceAggregateCars now body w)) = committed w"
proof -
  have "(\<exists>r. fst (assign a wid w) = Inr r \<and> (\<exists>row. r = Reply 200 (AggregateRow row))) \<or>
       committed (snd (assign a wid w)) = committed w"
    unfolding assign_def
    by (rule frame_finally [OF _ assms]) ((rule commitsOnlyWith_commit commitsOnlyWith_rollback | rule commitsOnlyWith_raise commitsOnlyWith_list commitsOnlyWith_if | rule commitsOnlyWith_andThen | rule inTransaction_clientQuery inTransaction_pure | rule exI | rule refl)+)
  then show "(\<exists>row. fst (assign a wid w) = Inr (Reply 200 (AggregateRow row))) \<or>
       committed (snd (assign a wid w)) = committed w"
    by auto
  have "(\<exists>r. fst (replaceAggregate user body w) = Inr r \<and>
            r = Reply 200 (Success ''Aggregate replaced successfully'')) \<or>
       committed (snd (replaceAggregate user body w)) = committed w"
    unfolding replaceAggregate_def
    by (rule frame_finally [OF _ assms]) ((rule commitsOnlyWith_commit commitsOnlyWith_rollback | rule commitsOnlyWith_raise commitsOnlyWith_list commitsOnlyWith_if | rule commitsOnlyWith_andThen | rule inTransaction_clientQuery inTransaction_pure | rule exI | rule refl)+)
  then show "fst (replaceAggregate user body w) =
         Inr (Reply 200 (Success ''Aggregate replaced successfully'')) \<or>
       committed (snd (replaceAggregate user body w)) = committed w"
    by simp
  have "(\<exists>r. fst (replaceAggregate2 user body w) = Inr r \<and>
            r = Reply 200 (Success ''Aggregate replaced successfully'')) \<or>
       committed (snd (replaceAggregate2 user body w)) = committed w"
    unfolding replaceAggregate2_def
    by (rule frame_finally [OF _ assms]) ((rule commitsOnlyWith_commit commitsOnlyWith_rollback | rule commitsOnlyWith_raise commitsOnlyWith_list commitsOnlyWith_if | rule commitsOnlyWith_andThen | rule inTransaction_clientQuery inTransaction_pure | rule exI | rule refl)+)
  then show "fst (replaceAggregate2 user body w) =
         Inr (Reply 200 (Success ''Aggregate replaced successfully'')) \<or>
       committed (snd (replaceAggregate2 user body w)) = committed w"
    by simp
  have "(\<exists>r. fst (swapAggregates now a tb w) = Inr r \<and>
            r = Reply 200 (Success ''Aggregates swapped successfully'')) \<or>
       committed (snd (swapAggregates now a tb w)) = committed w"
    unfolding swapAggregates_def
    by (rule frame_rethrow [OF _ assms]) ((rule commitsOnlyWith_commit commitsOnlyWith_rollback | rule commitsOnlyWith_raise commitsOnlyWith_list commitsOnlyWith_if | rule commitsOnlyWith_andThen | rule inTransaction_clientQuery inTransaction_pure | rule exI | rule refl)+)
  then show "fst (swapAggregates now a tb w) =
         Inr (Reply 200 (Success ''Aggregates swapped successfully'')) \<or>
       committed (snd (swapAggregates now a tb w)) = committed w"
    by simp
  have "(\<exists>r. fst (replaceAggregateCars now body w) = Inr r \<and>
            r = Reply 200 (Success ''Aggregate replaced successfully'')) \<or>
       committed (snd (replaceAggregateCars now body w)) = committed w"
    unfolding replaceAggregateCars_def
    by (rule frame_rethrow [OF _ assms]) ((rule commitsOnlyWith_commit commitsOnlyWith_rollback | rule commitsOnlyWith_raise commitsOnlyWith_list commitsOnlyWith_if | rule commitsOnlyWith_andThen | rule inTransaction_clientQuery inTransaction_pure | rule exI | rule refl)+)
  then show "fst (replaceAggregateCars now body w) =
         Inr (Reply 200 (Success ''Aggregate replaced successfully'')) \<or>
       committed (snd (replaceAggregateCars now body w)) = committed w"
    by simp
qed

section \<open>Properties kept on every path\<close>

text \<open>
  Rules for \<open>keeps\<close>, one for each way in which the handlers put computations
  together, and the two instances used below: the number of connections held, and an
  invariant of the committed database and the working copy.
\<close>

lemma keeps_ret: "keeps Q (ret x)"
  by (simp add: keeps_def ret_def)

lemma keeps_raise: "keeps Q (raise e)"
  by (simp add: keeps_def raise_def)

lemma keeps_andThen:
  assumes "keeps Q m" and "\<And>x. keeps Q (f x)"
  shows "keeps Q (andThen m f)"
  unfolding keeps_def
proof (intro allI impI)
  fix w assume q: "Q w"
  with assms(1) have m: "Q (snd (m w))" by (simp add: keeps_def)
  show "Q (snd (andThen m f w))"
  proof (cases "m w")
    case (Pair r w')
    with m have w': "Q w'" by simp
    show ?thesis
    proof (cases r)
      case (Inl e)
      with Pair w' show ?thesis by (simp add: andThen_def)
    next
      case (Inr x)
      from assms(2) [of x] w' have "Q (snd (f x w'))" by (simp add: keeps_def)
      with Pair Inr show ?thesis by (simp add: andThen_def)
    qed
  qed
qed

lemma keeps_tryCatch:
  assumes "keeps Q m" and "\<And>e. keeps Q (handler e)"
  shows "keeps Q (tryCatch m handler)"
  unfolding keeps_def
proof (intro allI impI)
  fix w assume q: "Q w"
  with assms(1) have m: "Q (snd (m w))" by (simp add: keeps_def)
  show "Q (snd (tryCatch m handler w))"
  proof (cases "m w")
    case (Pair r w')
    with m have w': "Q w'" by simp
    show ?thesis
    proof (cases r)
      case (Inl e)
      from assms(2) [of e] w' have "Q (snd (handler e w'))" by (simp add: keeps_def)
      with Pair Inl show ?thesis by (simp add: tryCatch_def)
    next
      case (Inr x)
      with Pair w' show ?thesis by (simp add: tryCatch_def)
    qed
  qed
qed

lemma keeps_tryFinally:
  assumes "keeps Q m" and "keeps Q fin"
  shows "keeps Q (tryFinally m fin)"
  unfolding keeps_def
proof (intro allI impI)
  fix w assume q: "Q w"
  with assms(1) have m: "Q (snd (m w))" by (simp add: keeps_def)
  show "Q (snd (tryFinally m fin w))"
  proof (cases "m w")
    case (Pair r w')
    with m have "Q w'" by simp
    with assms(2) have "Q (snd (fin w'))" by (simp add: keeps_def)
    with Pair show ?thesis
      by (cases "fin w'") (auto simp add: tryFinally_def split: sum.splits)
  qed
qed

lemma keeps_list:
  assumes "keeps Q a" and "\<And>x xs. keeps Q (b x xs)"
  shows "keeps Q (case l of [] \<Rightarrow> a | x # xs \<Rightarrow> b x xs)"
  using assms by (cases l) simp_all

lemma keeps_if:
  assumes "keeps Q a" and "keeps Q b"
  shows "keeps Q (if c then a else b)"
  using assms by simp

lemma keeps_idToString: "keeps Q (idToString v)"
  by (cases v) (simp_all add: idToString_def keeps_ret keeps_raise)

lemma keeps_firstRow: "keeps Q (firstRow rows)"
  by (cases rows) (simp_all add: firstRow_def keeps_ret keeps_raise)

lemma held_client:
  "keeps (\<lambda>w. held w = h) (clientQuery q)"
  "keeps (\<lambda>w. held w = h) clientBegin"
  "keeps (\<lambda>w. held w = h) clientCommit"
  "keeps (\<lambda>w. held w = h) clientRollback"
  by (auto simp add: keeps_def clientQuery_def clientBegin_def clientCommit_def clientRollback_def
      split: option.splits sum.splits)

lemma held_frame:
  assumes "\<And>h. keeps (\<lambda>w. held w = h) m"
  shows "held (snd (andThen poolConnect (\<lambda>client. tryFinally m clientRelease) w)) = held w"
proof (cases "failing w (trips w) \<or> POOL_MAX \<le> held w")
  case True
  then show ?thesis by (simp add: andThen_def poolConnect_def)
next
  case False
  let ?w = "w\<lparr>trips := trips w + 1, held := held w + 1\<rparr>"
  from assms [of "held w + 1"] have "held (snd (m ?w)) = held w + 1"
    by (simp add: keeps_def)
  with False show ?thesis
    by (cases "m ?w") (simp add: andThen_def poolConnect_def tryFinally_def clientRelease_def)
qed

lemma held_caught:
  assumes "\<And>w. held (snd (m w)) = held w"
  shows "held (snd (tryCatch m (\<lambda>error. ret r) w)) = held w"
  using assms [of w] by (cases "m w") (auto simp add: tryCatch_def ret_def split: sum.splits)

lemma everywhere_client:
  "keeps (everywhere I) poolConnect"
  "keeps (everywhere I) clientRelease"
  "keeps (everywhere I) clientBegin"
  "keeps (everywhere I) clientCommit"
  "keeps (everywhere I) clientRollback"
  by (auto simp add: keeps_def everywhere_def poolConnect_def clientRelease_def clientBegin_def
      clientCommit_def clientRollback_def split: option.splits)

lemma everywhere_clientQuery:
  assumes "\<And>db x db'. I db \<Longrightarrow> q db = Inr (x, db') \<Longrightarrow> I db'"
  shows "keeps (everywhere I) (clientQuery q)"
  using assms
  by (auto simp add: keeps_def everywhere_def clientQuery_def split: option.splits sum.splits)

lemma insertReplacement_aggregates:
  "insertReplacement row db = Inr (x, db') \<Longrightarrow> aggregates db' = aggregates db"
  by (auto simp add: insertReplacement_def storeVarchar_def split: sum.splits if_splits)

lemma insertAuditLog_aggregates:
  "insertAuditLog row db = Inr (x, db') \<Longrightarrow> aggregates db' = aggregates db"
  by (auto simp add: insertAuditLog_def storeVarchar_def split: sum.splits if_splits)

lemma consistent_queries:
  "keeps (everywhere consistent) (clientQuery (selectAggregate i))"
  "(\<And>row. rowConsistent (f row)) \<Longrightarrow> keeps (everywhere consistent) (clientQuery (updateAggregate i f))"
  "keeps (everywhere consistent) (clientQuery (insertReplacement rrow))"
  "keeps (everywhere consistent) (clientQuery (insertAuditLog arow))"
proof -
  show "keeps (everywhere consistent) (clientQuery (selectAggregate i))"
    by (rule everywhere_clientQuery) (auto simp add: selectAggregate_def)
  show "keeps (everywhere consistent) (clientQuery (updateAggregate i f))"
    if "\<And>row. rowConsistent (f row)"
    using that
    by (intro everywhere_clientQuery)
      (auto simp add: updateAggregate_def consistent_def split: option.splits if_splits)
  show "keeps (everywhere consistent) (clientQuery (insertReplacement rrow))"
    by (rule everywhere_clientQuery) (auto simp add: consistent_def dest!: insertReplacement_aggregates)
  show "keeps (everywhere consistent) (clientQuery (insertAuditLog arow))"
    by (rule everywhere_clientQuery) (auto simp add: consistent_def dest!: insertAuditLog_aggregates)
qed

lemma replace_keeps:
  "keeps (everywhere consistent) (replaceAggregate user body)"
  "keeps (everywhere consistent) (replaceAggregate2 user body)"
  unfolding replaceAggregate_def replaceAggregate2_def
  by ((rule everywhere_client consistent_queries keeps_ret keeps_raise keeps_list keeps_if
          keeps_idToString keeps_firstRow
        | rule keeps_andThen keeps_tryCatch keeps_tryFinally
        | simp add: rowConsistent_def)+)

section \<open>Tenant resolver (C4)\<close>

lemma find_absent:
  "x \<notin> azureTenantId ` set ms \<Longrightarrow> find (\<lambda>m. azureTenantId m = x) ms = None"
  by (induction ms) auto

lemma getDbTenantId_unknown:
  "x \<notin> azureTenantId ` set ms \<Longrightarrow> getDbTenantId ms x = ''default''"
  by (simp add: getDbTenantId_def find_absent)

lemmas superAdmin_defs =
  isTechvanaSuperAdmin_def toLowerCase_def toLowerCaseChar_def TECHVANA_SUPER_ADMINS_def

text \<open>
  C4, as stated, at the empty string: a super-admin who passes the empty string as
  \<open>requestedTenantId\<close> does not get the empty string back, but the default key.
\<close>

theorem C4_empty_requested_counterexample:
  "isTechvanaSuperAdmin ''elias-chahoud@hotmail.com'' \<and>
   getTenantIdForUser DEFAULT_TENANT_MAPPINGS ''elias-chahoud@hotmail.com''
     ''71416bf2-04a4-4715-a8d2-6af239168e20'' (Some '''') = ''default'' \<and>
   getTenantIdForUser DEFAULT_TENANT_MAPPINGS ''elias-chahoud@hotmail.com''
     ''71416bf2-04a4-4715-a8d2-6af239168e20'' (Some '''') \<noteq> ''''"
  by (simp add: getTenantIdForUser_def orDefault_def superAdmin_defs)

text \<open>
  C4 (amended). \<open>getTenantIdForUser\<close> is a total function to strings, so it always
  returns. For an email that is not a super-admin's and an external tenant id that no
  entry of the mapping table carries, it returns \<open>default\<close>, whatever
  \<open>requestedTenantId\<close> is. For a super-admin's email (in any letter case) and any
  mapping table and external id, it returns \<open>requestedTenantId\<close> when that is a
  non-empty string, and \<open>default\<close> when it is absent or the empty string.
\<close>

theorem C4_getTenantIdForUser:
  "(\<not> isTechvanaSuperAdmin mail \<and> azureId \<notin> azureTenantId ` set tenantMappings
      \<longrightarrow> getTenantIdForUser tenantMappings mail azureId requested = ''default'') \<and>
   (isTechvanaSuperAdmin mail \<and> requested = Some t \<and> t \<noteq> []
      \<longrightarrow> getTenantIdForUser tenantMappings mail azureId requested = t) \<and>
   (isTechvanaSuperAdmin mail \<and> (requested = None \<or> requested = Some [])
      \<longrightarrow> getTenantIdForUser tenantMappings mail azureId requested = ''default'')"
  by (auto simp: getTenantIdForUser_def orDefault_def getDbTenantId_unknown)

theorem C4_getTenantIdForUser_witness:
  "\<not> isTechvanaSuperAdmin ''dev@techra.app'' \<and>
   ''unknown-tenant'' \<notin> azureTenantId ` set DEFAULT_TENANT_MAPPINGS \<and>
   getTenantIdForUser DEFAULT_TENANT_MAPPINGS ''dev@techra.app'' ''unknown-tenant'' None = ''default'' \<and>
   isTechvanaSuperAdmin ''Elias-Chahoud@Hotmail.com'' \<and>
   getTenantIdForUser [] ''Elias-Chahoud@Hotmail.com'' ''unknown-tenant'' (Some ''tenantX'') = ''tenantX'' \<and>
   getTenantIdForUser DEFAULT_TENANT_MAPPINGS ''Elias-Chahoud@Hotmail.com''
     ''71416bf2-04a4-4715-a8d2-6af239168e20'' None = ''default''"
proof -
  have a: "\<not> isTechvanaSuperAdmin ''dev@techra.app''"
    by (simp add: superAdmin_defs)
  have b: "''unknown-tenant'' \<notin> azureTenantId ` set DEFAULT_TENANT_MAPPINGS"
    by (simp add: DEFAULT_TENANT_MAPPINGS_def)
  have c: "isTechvanaSuperAdmin ''Elias-Chahoud@Hotmail.com''"
    by code_simp
  from a b c
    C4_getTenantIdForUser [of "''dev@techra.app''" "''unknown-tenant''" DEFAULT_TENANT_MAPPINGS None]
    C4_getTenantIdForUser [of "''Elias-Chahoud@Hotmail.com''" "''unknown-tenant''" "[]" "Some ''tenantX''" "''tenantX''"]
    C4_getTenantIdForUser [of "''Elias-Chahoud@Hotmail.com''" "''71416bf2-04a4-4715-a8d2-6af239168e20''" DEFAULT_TENANT_MAPPINGS None]
  show ?thesis by simp
qed

section \<open>Authentication middleware (C9)\<close>

lemma startsWith_iff: "startsWith h p \<longleftrightarrow> (\<exists>t. h = p @ t)"
  unfolding startsWith_def
  by (metis append_eq_conv_conj append_take_drop_id)

lemma tokenUser_fails:
  "(\<exists>e. tokenUser cfg dec t = Inl e) \<longleftrightarrow>
     (case splitOn CHR ''.'' t of
        p # seg # rest \<Rightarrow> dec seg = None \<or> dec seg = Some JsonNull
      | _ \<Rightarrow> True)"
  by (auto simp: tokenUser_def split: list.splits option.splits JwtPayload.splits)

text \<open>
  C9. \<open>authenticate\<close> rejects a request exactly when the \<open>Authorization\<close> header
  is absent or does not start with \<open>Bearer \<close>, and the rejection carries status
  \<open>401\<close>. A header with the prefix is always authenticated, whatever the decoder
  does; when decoding the token fails (no second segment, \<open>JSON.parse\<close> raises, or
  the payload is \<open>null\<close>: see \<open>tokenUser_fails\<close>), the user installed is the fixed
  development user.
\<close>

theorem C9_authenticate:
  "((\<exists>code body. authenticate cfg dec hdr = Rejected code body)
      \<longleftrightarrow> \<not> (\<exists>t. hdr = Some (''Bearer '' @ t))) \<and>
   (\<forall>code body. authenticate cfg dec hdr = Rejected code body \<longrightarrow> code = 401) \<and>
   (\<forall>t. hdr = Some (''Bearer '' @ t) \<longrightarrow>
      (\<exists>u. authenticate cfg dec hdr = Authenticated u) \<and>
      ((\<exists>e. tokenUser cfg dec t = Inl e) \<longrightarrow>
         authenticate cfg dec hdr = Authenticated (devUser cfg)))"
  by (auto simp: authenticate_def startsWith_iff split: option.splits sum.splits)

theorem C9_authenticate_witness:
  "authenticate ''t'' (\<lambda>s. None) None = Rejected 401 ''Authentication required'' \<and>
   authenticate ''t'' (\<lambda>s. None) (Some ''Basic abc'') = Rejected 401 ''Authentication required'' \<and>
   tokenUser ''t'' (\<lambda>s. None) ''abc.def.ghi'' = Inl SyntaxError \<and>
   authenticate ''t'' (\<lambda>s. None) (Some ''Bearer abc.def.ghi'') = Authenticated (devUser ''t'') \<and>
   tokenUser ''t'' (\<lambda>s. Some JsonNull) ''nodots'' = Inl TypeError \<and>
   authenticate ''t'' (\<lambda>s. Some JsonNull) (Some ''Bearer nodots'') = Authenticated (devUser ''t'')"
proof -
  have a: "tokenUser ''t'' (\<lambda>s. None) ''abc.def.ghi'' = Inl SyntaxError"
    and b: "tokenUser ''t'' (\<lambda>s. Some JsonNull) ''nodots'' = Inl TypeError"
    by (simp_all add: tokenUser_def)
  have c: "authenticate ''t'' (\<lambda>s. None) None = Rejected 401 ''Authentication required''"
    and d: "authenticate ''t'' (\<lambda>s. None) (Some ''Basic abc'') = Rejected 401 ''Authentication required''"
    by (simp_all add: authenticate_def startsWith_def)
  from a b c d
    C9_authenticate [of "''t''" "\<lambda>s. None" "Some ''Bearer abc.def.ghi''"]
    C9_authenticate [of "''t''" "\<lambda>s. Some JsonNull" "Some ''Bearer nodots''"]
  show ?thesis by auto
qed

section \<open>Chat handler (C10, C8)\<close>

text \<open>
  C10. Whenever \<open>POST /chat\<close> answers with a body, the body's
  \<open>conversation_history\<close> is the request's history (empty when the member is
  missing) followed by the user's message with role \<open>user\<close> and the reply with role
  \<open>assistant\<close>, in this order: its length is the input's plus two and the input is a
  prefix of it.
\<close>

theorem C10_conversation_history:
  "chat sc oc dep u req = ChatOk b \<Longrightarrow>
     respHistory b =
       (case conversation_history req of None \<Rightarrow> [] | Some h \<Rightarrow> h) @
       [\<lparr>role = RoleUser, content = message req\<rparr>, \<lparr>role = RoleAssistant, content = reply b\<rparr>] \<and>
     length (respHistory b) =
       length (case conversation_history req of None \<Rightarrow> [] | Some h \<Rightarrow> h) + 2 \<and>
     prefix (case conversation_history req of None \<Rightarrow> [] | Some h \<Rightarrow> h) (respHistory b)"
  by (auto simp: chat_def Let_def split: sum.splits)

theorem C10_conversation_history_witness:
  "chat None None ''gpt-4o-mini'' exampleUser
      \<lparr>message = ''hi'', conversation_history =
         Some [\<lparr>role = RoleUser, content = ''a''\<rparr>, \<lparr>role = RoleAssistant, content = ''b''\<rparr>]\<rparr> =
     ChatOk \<lparr>respUser = ''hi'', reply = mockResponse ''hi'' 0, respSources = [],
       respHistory = [\<lparr>role = RoleUser, content = ''a''\<rparr>, \<lparr>role = RoleAssistant, content = ''b''\<rparr>,
         \<lparr>role = RoleUser, content = ''hi''\<rparr>, \<lparr>role = RoleAssistant, content = mockResponse ''hi'' 0\<rparr>]\<rparr> \<and>
   length [\<lparr>role = RoleUser, content = ''a''\<rparr>, \<lparr>role = RoleAssistant, content = ''b''\<rparr>,
         \<lparr>role = RoleUser, content = ''hi''\<rparr>, \<lparr>role = RoleAssistant, content = mockResponse ''hi'' 0\<rparr>] = 4"
proof -
  have h: "chat None None ''gpt-4o-mini'' exampleUser
      \<lparr>message = ''hi'', conversation_history =
         Some [\<lparr>role = RoleUser, content = ''a''\<rparr>, \<lparr>role = RoleAssistant, content = ''b''\<rparr>]\<rparr> =
     ChatOk \<lparr>respUser = ''hi'', reply = mockResponse ''hi'' 0, respSources = [],
       respHistory = [\<lparr>role = RoleUser, content = ''a''\<rparr>, \<lparr>role = RoleAssistant, content = ''b''\<rparr>,
         \<lparr>role = RoleUser, content = ''hi''\<rparr>, \<lparr>role = RoleAssistant, content = mockResponse ''hi'' 0\<rparr>]\<rparr>"
    by (simp add: chat_def generateResponse_def searchDocuments_def collectSources_def Let_def)
  from h C10_conversation_history [OF h] show ?thesis by simp
qed

text \<open>
  C8, as stated, fails where the completion collaborator is configured and its call
  raises: nothing else is wrong with the request, and the reply is \<open>500\<close>.
\<close>

theorem C8_completion_failure_counterexample:
  "chat None (Some (\<lambda>deployment messages. Inl UpstreamError)) ''gpt-4o-mini'' exampleUser
      \<lparr>message = ''hi'', conversation_history = None\<rparr> = ChatFailed 500 ''Chat processing failed''"
  by (simp add: chat_def generateResponse_def Let_def)

text \<open>
  C8 (amended). When the search collaborator is unconfigured or its call raises,
  \<open>searchDocuments\<close> returns no result, the retrieval context is empty and the handler
  answers as it does without a search client. When the completion collaborator is
  unconfigured, the handler answers with a body whose reply is the placeholder text,
  which starts with \<open>Mock response for: \<close>, whatever the search collaborator does.
  When the completion collaborator is configured and its call raises, the handler
  answers \<open>500\<close>.
\<close>

theorem C8_chat_degrades:
  "(sc = None \<or> (\<exists>c e. sc = Some c \<and> c (message req) 3 = Inl e) \<longrightarrow>
      searchDocuments sc (message req) 3 = [] \<and>
      buildContext (searchDocuments sc (message req) 3) = [] \<and>
      chat sc oc dep u req = chat None oc dep u req) \<and>
   (\<exists>b. chat sc None dep u req = ChatOk b \<and>
        reply b = mockResponse (message req) (length (searchDocuments sc (message req) 3)) \<and>
        prefix ''Mock response for: '' (reply b)) \<and>
   ((\<exists>c. oc = Some c \<and> (\<forall>ms. \<exists>e. c dep ms = Inl e)) \<longrightarrow>
      chat sc oc dep u req = ChatFailed 500 ''Chat processing failed'')"
proof (intro conjI impI)
  assume "sc = None \<or> (\<exists>c e. sc = Some c \<and> c (message req) 3 = Inl e)"
  then have e: "searchDocuments sc (message req) 3 = []"
    by (auto simp: searchDocuments_def)
  then show "searchDocuments sc (message req) 3 = []" .
  from e show "buildContext (searchDocuments sc (message req) 3) = []"
    by (simp add: buildContext_def)
  from e show "chat sc oc dep u req = chat None oc dep u req"
    by (simp add: chat_def searchDocuments_def)
next
  show "\<exists>b. chat sc None dep u req = ChatOk b \<and>
        reply b = mockResponse (message req) (length (searchDocuments sc (message req) 3)) \<and>
        prefix ''Mock response for: '' (reply b)"
    by (simp add: chat_def generateResponse_def Let_def mockResponse_def)
next
  assume "\<exists>c. oc = Some c \<and> (\<forall>ms. \<exists>e. c dep ms = Inl e)"
  then obtain c where c: "oc = Some c" "\<forall>ms. \<exists>e. c dep ms = Inl e" by blast
  have "\<And>ms x. c dep ms \<noteq> Inr x"
    using c(2) by (metis sum.distinct(1))
  then show "chat sc oc dep u req = ChatFailed 500 ''Chat processing failed''"
    by (auto simp add: chat_def generateResponse_def Let_def c(1) split: sum.splits)
qed

theorem C8_chat_degrades_witness:
  "searchDocuments (Some (\<lambda>q n. Inl UpstreamError)) ''hi'' 3 = [] \<and>
   chat (Some (\<lambda>q n. Inl UpstreamError)) None ''gpt-4o-mini'' exampleUser
      \<lparr>message = ''hi'', conversation_history = None\<rparr> =
   chat None None ''gpt-4o-mini'' exampleUser \<lparr>message = ''hi'', conversation_history = None\<rparr> \<and>
   chat None (Some (\<lambda>d ms. Inl UpstreamError)) ''gpt-4o-mini'' exampleUser
      \<lparr>message = ''hi'', conversation_history = None\<rparr> = ChatFailed 500 ''Chat processing failed''"
  using
    C8_chat_degrades [of "Some (\<lambda>q n. Inl UpstreamError)" "\<lparr>message = ''hi'', conversation_history = None\<rparr>"
       None "''gpt-4o-mini''" exampleUser]
    C8_chat_degrades [of None "\<lparr>message = ''hi'', conversation_history = None\<rparr>"
       "Some (\<lambda>d ms. Inl UpstreamError)" "''gpt-4o-mini''" exampleUser]
  by simp

section \<open>Assign (C7)\<close>

lemma assign_ok:
  assumes "reliable w" "idle w" "aggregates (committed w) a = Some r"
  shows "assign a wid w =
     (Inr (Reply 200 (AggregateRow (r\<lparr>current_wagon_id := wid\<rparr>))),
      w\<lparr>trips := trips w + 6,
        committed := (committed w)\<lparr>
          aggregates := (aggregates (committed w))(a \<mapsto> r\<lparr>current_wagon_id := wid\<rparr>),
          aggregate_logs := aggregate_logs (committed w) @
            [\<lparr>log_aggregate_id = a, log_wagon_id = wid, event_type = ''moved'',
              log_description = ''Aggregate reassigned to different wagon'',
              log_old_value = JObject [(''wagon_id'', jsonColumn (current_wagon_id r))],
              log_new_value = JObject (jsonMember ''wagon_id'' wid)\<rparr>]\<rparr>\<rparr>)"
  using assms
  by (simp add: assign_def io_defs stmt_defs reliable_def idle_def)

lemma assign_missing:
  assumes "reliable w" "idle w" "aggregates (committed w) a = None"
  shows "assign a wid w = (Inr (Reply 404 (ErrorMsg ''Aggregate not found'')), w\<lparr>trips := trips w + 5\<rparr>)"
  using assms
  by (simp add: assign_def io_defs stmt_defs reliable_def idle_def)

text \<open>
  C7, as stated, on the spare aggregate 20 of the concrete fleet: after \<open>assign\<close> to
  wagon 7 its spare flag is still set and its status is still \<open>reserve\<close>.
\<close>

theorem C7_assign_spare_counterexample:
  "aggregates exampleDb 20 =
     Some \<lparr>aggregate_number = ''AGG-20'', status = ''reserve'', current_wagon_id = None,
            is_spare = True, current_temperature = None, pressure_value = None, updated_at = 0\<rparr> \<and>
   fst (assign 20 (Some 7) exampleWorld) =
     Inr (Reply 200 (AggregateRow
       \<lparr>aggregate_number = ''AGG-20'', status = ''reserve'', current_wagon_id = Some 7,
        is_spare = True, current_temperature = None, pressure_value = None, updated_at = 0\<rparr>)) \<and>
   aggregates (committed (snd (assign 20 (Some 7) exampleWorld))) 20 =
     Some \<lparr>aggregate_number = ''AGG-20'', status = ''reserve'', current_wagon_id = Some 7,
            is_spare = True, current_temperature = None, pressure_value = None, updated_at = 0\<rparr>"
  by (simp add: assign_def io_defs stmt_defs example_defs POOL_MAX_def)

text \<open>
  C7 (amended). For an \<open>assign\<close> that starts with no transaction open. In a world
  where no round trip fails and a connection is free: on an existing aggregate it
  answers with the updated row, sets the aggregate's wagon reference to the given
  wagon id and changes no other column of it (the spare flag and the status stay as
  they were) and no other aggregate, and appends exactly one \<open>aggregate_logs\<close> row
  that records the old and the new wagon id; on an aggregate id that does not exist
  it answers \<open>404\<close> and the committed database is the one before the call. In
  every world, whatever round trips fail, it answers with an updated row or leaves
  the committed database as it was.
\<close>

theorem C7_assign:
  assumes "pending w = None"
  shows
   "(reliable w \<and> held w < POOL_MAX \<longrightarrow>
    (aggregates (committed w) a = Some r \<longrightarrow>
       fst (assign a wid w) = Inr (Reply 200 (AggregateRow (r\<lparr>current_wagon_id := wid\<rparr>))) \<and>
       aggregates (committed (snd (assign a wid w))) =
         (aggregates (committed w))(a \<mapsto> r\<lparr>current_wagon_id := wid\<rparr>) \<and>
       wagonOf (committed (snd (assign a wid w))) a = Some wid \<and>
       spareFlag (committed (snd (assign a wid w))) a = Some (is_spare r) \<and>
       map_option status (aggregates (committed (snd (assign a wid w))) a) = Some (status r) \<and>
       aggregate_logs (committed (snd (assign a wid w))) =
         aggregate_logs (committed w) @
           [\<lparr>log_aggregate_id = a, log_wagon_id = wid, event_type = ''moved'',
             log_description = ''Aggregate reassigned to different wagon'',
             log_old_value = JObject [(''wagon_id'', jsonColumn (current_wagon_id r))],
             log_new_value = JObject (jsonMember ''wagon_id'' wid)\<rparr>]) \<and>
    (aggregates (committed w) a = None \<longrightarrow>
       fst (assign a wid w) = Inr (Reply 404 (ErrorMsg ''Aggregate not found'')) \<and>
       committed (snd (assign a wid w)) = committed w)) \<and>
    ((\<exists>row. fst (assign a wid w) = Inr (Reply 200 (AggregateRow row))) \<or>
       committed (snd (assign a wid w)) = committed w)"
    (is "(?rel \<longrightarrow> ?behaviour) \<and> ?atomic")
proof (rule conjI [OF impI])
  show "?atomic" by (rule transactions_atomic(1) [OF assms])
next
  assume "?rel"
  with assms have r: "reliable w" and i: "idle w" by (simp_all add: idle_def)
  show "?behaviour"
    by (simp add: assign_ok [OF r i] assign_missing [OF r i] wagonOf_def spareFlag_def)
qed

theorem C7_assign_witness:
  "reliable exampleWorld \<and> idle exampleWorld \<and>
   wagonOf (committed (snd (assign 30 (Some 7) exampleWorld))) 30 = Some (Some 7) \<and>
   aggregate_logs (committed (snd (assign 30 (Some 7) exampleWorld))) =
     [\<lparr>log_aggregate_id = 30, log_wagon_id = Some 7, event_type = ''moved'',
       log_description = ''Aggregate reassigned to different wagon'',
       log_old_value = JObject [(''wagon_id'', JInt 8)],
       log_new_value = JObject [(''wagon_id'', JInt 7)]\<rparr>] \<and>
   fst (assign 99 (Some 7) exampleWorld) = Inr (Reply 404 (ErrorMsg ''Aggregate not found'')) \<and>
   committed (snd (assign 99 (Some 7) exampleWorld)) = exampleDb"
proof -
  have a: "aggregates (committed exampleWorld) 30 =
      Some \<lparr>aggregate_number = ''AGG-30'', status = ''operational'',
                 current_wagon_id = Some 8, is_spare = False,
                 current_temperature = None, pressure_value = None, updated_at = 0\<rparr>"
    and m: "aggregates (committed exampleWorld) 99 = None"
    and l: "aggregate_logs (committed exampleWorld) = []"
    and c: "committed exampleWorld = exampleDb"
    and p: "pending exampleWorld = None"
    and h: "held exampleWorld < POOL_MAX"
    by (simp_all add: example_defs POOL_MAX_def)
  from a m l c h example_reliable example_idle
    C7_assign [OF p, where a = 30 and wid = "Some 7"
      and r = "\<lparr>aggregate_number = ''AGG-30'', status = ''operational'',
                 current_wagon_id = Some 8, is_spare = False,
                 current_temperature = None, pressure_value = None, updated_at = 0\<rparr>"]
    C7_assign [OF p, where a = 99 and wid = "Some 7"]
  show ?thesis
    by (simp add: jsonColumn_def jsonMember_def)
qed

section \<open>Swap (C3)\<close>

lemma swap_ok:
  assumes "reliable w" "idle w"
    "aggregates (committed w) a = Some ra" "aggregates (committed w) b = Some rb"
  shows "swapAggregates now a (Some b) w =
     (Inr (Reply 200 (Success ''Aggregates swapped successfully'')),
      w\<lparr>trips := trips w + 7,
        committed := (committed w)\<lparr>aggregates :=
          ((aggregates (committed w))
             (a \<mapsto> ra\<lparr>current_wagon_id := current_wagon_id rb, updated_at := now\<rparr>))
             (b \<mapsto> (if a = b then ra\<lparr>current_wagon_id := current_wagon_id rb, updated_at := now\<rparr> else rb)
                     \<lparr>current_wagon_id := current_wagon_id ra, updated_at := now\<rparr>)\<rparr>\<rparr>)"
  using assms
  by (simp add: swapAggregates_def io_defs stmt_defs reliable_def idle_def)

lemma swap_missing:
  assumes "reliable w" "idle w"
    "aggregates (committed w) a = None \<or> tb = None \<or> (\<exists>b. tb = Some b \<and> aggregates (committed w) b = None)"
  shows "swapAggregates now a tb w =
     (Inr (Reply 404 (ErrorMsg ''One or both aggregates not found'')), w\<lparr>trips := trips w + 5\<rparr>)"
  using assms
  by (auto simp add: swapAggregates_def io_defs stmt_defs reliable_def idle_def split: option.splits)

lemma swap_success:
  assumes "pending w = None"
    "aggregates (committed w) a = Some ra" "aggregates (committed w) b = Some rb"
    "fst (swapAggregates now a (Some b) w) =
       Inr (Reply 200 (Success ''Aggregates swapped successfully''))"
  shows "aggregates (committed (snd (swapAggregates now a (Some b) w))) =
          ((aggregates (committed w))
             (a \<mapsto> ra\<lparr>current_wagon_id := current_wagon_id rb, updated_at := now\<rparr>))
             (b \<mapsto> (if a = b then ra\<lparr>current_wagon_id := current_wagon_id rb, updated_at := now\<rparr> else rb)
                     \<lparr>current_wagon_id := current_wagon_id ra, updated_at := now\<rparr>)"
  using assms
  by (simp add: swapAggregates_def io_defs stmt_defs split: if_splits)

text \<open>
  C3. For a swap that starts with no transaction open. In a world where no round
  trip fails and a connection is free: when both aggregates exist, \<open>a\<close> with wagon
  reference \<open>w1\<close> and \<open>b\<close> with \<open>w2\<close>, the swap answers with success, after it
  \<open>a\<close> has \<open>w2\<close> and \<open>b\<close> has \<open>w1\<close>, and a second swap of the same pair
  succeeds and gives every aggregate the wagon reference it had at the start; when
  either aggregate is missing (or the body names no target), the reply is \<open>404\<close>
  and the committed database is the one before the call. In every world, whatever
  round trips fail, the swap answers with success or leaves the committed database
  as it was, and a swap of two existing aggregates that answers with success has
  exchanged their wagon references.
\<close>

theorem C3_swap:
  assumes "pending w = None"
  shows
   "(reliable w \<and> held w < POOL_MAX \<longrightarrow>
    (aggregates (committed w) a = Some ra \<and> aggregates (committed w) b = Some rb \<and>
       current_wagon_id ra = w1 \<and> current_wagon_id rb = w2 \<longrightarrow>
       fst (swapAggregates now a (Some b) w) =
         Inr (Reply 200 (Success ''Aggregates swapped successfully'')) \<and>
       wagonOf (committed (snd (swapAggregates now a (Some b) w))) a = Some w2 \<and>
       wagonOf (committed (snd (swapAggregates now a (Some b) w))) b = Some w1 \<and>
       fst (swapAggregates now' a (Some b) (snd (swapAggregates now a (Some b) w))) =
         Inr (Reply 200 (Success ''Aggregates swapped successfully'')) \<and>
       wagonOf (committed (snd (swapAggregates now' a (Some b)
                  (snd (swapAggregates now a (Some b) w))))) = wagonOf (committed w)) \<and>
    (aggregates (committed w) a = None \<or> tb = None \<or>
       (\<exists>b. tb = Some b \<and> aggregates (committed w) b = None) \<longrightarrow>
       fst (swapAggregates now a tb w) =
         Inr (Reply 404 (ErrorMsg ''One or both aggregates not found'')) \<and>
       committed (snd (swapAggregates now a tb w)) = committed w)) \<and>
    (fst (swapAggregates now a tb w) =
         Inr (Reply 200 (Success ''Aggregates swapped successfully'')) \<or>
       committed (snd (swapAggregates now a tb w)) = committed w) \<and>
    (aggregates (committed w) a = Some ra \<and> aggregates (committed w) b = Some rb \<and>
     fst (swapAggregates now a (Some b) w) =
       Inr (Reply 200 (Success ''Aggregates swapped successfully'')) \<longrightarrow>
       wagonOf (committed (snd (swapAggregates now a (Some b) w))) a =
         Some (current_wagon_id rb) \<and>
       wagonOf (committed (snd (swapAggregates now a (Some b) w))) b =
         Some (current_wagon_id ra))"
    (is "(?rel \<longrightarrow> ?behaviour) \<and> ?atomic \<and> ?succeeded")
proof (rule conjI [OF impI])
  have "?atomic" by (rule transactions_atomic(4) [OF assms])
  moreover have "?succeeded"
    by (auto simp add: wagonOf_def swap_success [OF assms])
  ultimately show "?atomic \<and> ?succeeded" ..
next
  assume "?rel"
  with assms have r: "reliable w" and i: "idle w" by (simp_all add: idle_def)
  show "?behaviour"
  proof (intro conjI impI)
  assume m: "aggregates (committed w) a = None \<or> tb = None \<or>
       (\<exists>b. tb = Some b \<and> aggregates (committed w) b = None)"
  show "fst (swapAggregates now a tb w) =
         Inr (Reply 404 (ErrorMsg ''One or both aggregates not found''))"
    by (simp add: swap_missing [OF r i m])
  show "committed (snd (swapAggregates now a tb w)) = committed w"
    by (simp add: swap_missing [OF r i m])
next
  assume h: "aggregates (committed w) a = Some ra \<and> aggregates (committed w) b = Some rb \<and>
       current_wagon_id ra = w1 \<and> current_wagon_id rb = w2"
  let ?w' = "snd (swapAggregates now a (Some b) w)"
  have first: "swapAggregates now a (Some b) w =
     (Inr (Reply 200 (Success ''Aggregates swapped successfully'')),
      w\<lparr>trips := trips w + 7,
        committed := (committed w)\<lparr>aggregates :=
          ((aggregates (committed w))
             (a \<mapsto> ra\<lparr>current_wagon_id := current_wagon_id rb, updated_at := now\<rparr>))
             (b \<mapsto> (if a = b then ra\<lparr>current_wagon_id := current_wagon_id rb, updated_at := now\<rparr> else rb)
                     \<lparr>current_wagon_id := current_wagon_id ra, updated_at := now\<rparr>)\<rparr>\<rparr>)"
    using swap_ok [OF r i] h by blast
  show "fst (swapAggregates now a (Some b) w) =
         Inr (Reply 200 (Success ''Aggregates swapped successfully''))"
    by (simp add: first)
  show "wagonOf (committed ?w') a = Some w2"
    using h by (auto simp add: first wagonOf_def)
  show "wagonOf (committed ?w') b = Some w1"
    using h by (simp add: first wagonOf_def)
  have r': "reliable ?w'" and i': "idle ?w'"
    using r i by (simp_all add: first reliable_def idle_def)
  let ?ra1 = "ra\<lparr>current_wagon_id := current_wagon_id rb, updated_at := now\<rparr>"
  let ?rb1 = "(if a = b then ?ra1 else rb)\<lparr>current_wagon_id := current_wagon_id ra, updated_at := now\<rparr>"
  have a': "aggregates (committed ?w') a = Some (if a = b then ?rb1 else ?ra1)"
    and b': "aggregates (committed ?w') b = Some ?rb1"
    by (simp_all add: first)
  note second = swap_ok [OF r' i' a' b', of now']
  show "fst (swapAggregates now' a (Some b) ?w') =
         Inr (Reply 200 (Success ''Aggregates swapped successfully''))"
    by (simp add: second)
  show "wagonOf (committed (snd (swapAggregates now' a (Some b) ?w'))) = wagonOf (committed w)"
  proof
    fix k
    show "wagonOf (committed (snd (swapAggregates now' a (Some b) ?w'))) k = wagonOf (committed w) k"
      unfolding second wagonOf_def using h
      by (auto simp add: first)
  qed
qed
qed

theorem C3_swap_witness:
  "reliable exampleWorld \<and> idle exampleWorld \<and>
   wagonOf exampleDb 10 = Some (Some 7) \<and> wagonOf exampleDb 30 = Some (Some 8) \<and>
   wagonOf (committed (snd (swapAggregates 1 10 (Some 30) exampleWorld))) 10 = Some (Some 8) \<and>
   wagonOf (committed (snd (swapAggregates 1 10 (Some 30) exampleWorld))) 30 = Some (Some 7) \<and>
   wagonOf (committed (snd (swapAggregates 2 10 (Some 30)
       (snd (swapAggregates 1 10 (Some 30) exampleWorld))))) = wagonOf exampleDb \<and>
   fst (swapAggregates 1 10 (Some 99) exampleWorld) =
     Inr (Reply 404 (ErrorMsg ''One or both aggregates not found'')) \<and>
   committed (snd (swapAggregates 1 10 (Some 99) exampleWorld)) = exampleDb"
proof -
  have r: "reliable exampleWorld" and i: "idle exampleWorld"
    by (simp_all add: reliable_def idle_def exampleWorld_def POOL_MAX_def)
  have c: "committed exampleWorld = exampleDb" and p: "pending exampleWorld = None"
    and h: "held exampleWorld < POOL_MAX"
    by (simp_all add: exampleWorld_def POOL_MAX_def)
  have a: "aggregates (committed exampleWorld) 10 =
      Some \<lparr>aggregate_number = ''AGG-10'', status = ''operational'',
                 current_wagon_id = Some 7, is_spare = False,
                 current_temperature = None, pressure_value = None, updated_at = 0\<rparr>"
    and b: "aggregates (committed exampleWorld) 30 =
      Some \<lparr>aggregate_number = ''AGG-30'', status = ''operational'',
                 current_wagon_id = Some 8, is_spare = False,
                 current_temperature = None, pressure_value = None, updated_at = 0\<rparr>"
    and m: "aggregates (committed exampleWorld) 99 = None"
    by (simp_all add: example_defs)
  from a b m c r i h
    C3_swap [OF p, where a = 10 and b = 30 and tb = "Some 99" and now = 1 and now' = 2
      and ra = "\<lparr>aggregate_number = ''AGG-10'', status = ''operational'',
                 current_wagon_id = Some 7, is_spare = False,
                 current_temperature = None, pressure_value = None, updated_at = 0\<rparr>"
      and rb = "\<lparr>aggregate_number = ''AGG-30'', status = ''operational'',
                 current_wagon_id = Some 8, is_spare = False,
                 current_temperature = None, pressure_value = None, updated_at = 0\<rparr>"
      and ?w1.0 = "Some 7" and ?w2.0 = "Some 8"]
  show ?thesis
    by (simp add: wagonOf_def)
qed

section \<open>Replace (C1)\<close>

lemma replace1_ok:
  assumes "reliable w" "idle w" "old_aggregate_id body = Some old" "new_aggregate_id body = Some new"
    "aggregates (committed w) old = Some ro" "aggregates (committed w) new = Some rn" "old \<noteq> new"
    "referencesWagon (committed w) (current_wagon_id ro)"
    "charCount (requestTenant user) \<le> 100" "charCount (email user) \<le> 255"
    "charCount (userName user) \<le> 255"
    "int4 (Some old)" "int4 (Some new)" "int4 (current_wagon_id ro)"
  shows "replaceAggregate user body w =
     (Inr (Reply 200 (Success ''Aggregate replaced successfully'')),
      w\<lparr>trips := trips w + 8,
        committed := (committed w)\<lparr>
          aggregates := (aggregates (committed w))
             (old \<mapsto> ro\<lparr>current_wagon_id := None, is_spare := True, status := ''maintenance''\<rparr>,
              new \<mapsto> rn\<lparr>current_wagon_id := current_wagon_id ro, is_spare := False, status := ''operational''\<rparr>),
          aggregate_replacements := aggregate_replacements (committed w) @
            [\<lparr>rep_tenant_id = requestTenant user, rep_old_aggregate_id = Some old,
              rep_new_aggregate_id = Some new, rep_wagon_id = current_wagon_id ro,
              rep_reason = reason body, replaced_by = email user\<rparr>],
          audit_logs := audit_logs (committed w) @
            [\<lparr>audit_tenant_id = requestTenant user, user_email = email user, user_name = userName user,
              action = ''REPLACE'', entity_type = ''aggregate'', entity_id = showInt old,
              old_value = Some (JObject [(''aggregate_id'', JInt old), (''wagon_id'', jsonColumn (current_wagon_id ro))]),
              new_value = Some (JObject [(''aggregate_id'', JInt new), (''wagon_id'', jsonColumn (current_wagon_id ro))]),
              description = ''Replaced aggregate '' @ aggregate_number ro @
                                 '' with spare. Reason: '' @ templateString (reason body)\<rparr>]\<rparr>\<rparr>)"
  using assms charCount_showInt [of old]
  by (auto simp add: replaceAggregate_def io_defs stmt_defs reliable_def idle_def jsonMember_def
      storeVarchar_fits charCount_constants split: option.splits)

lemma replace1_missing:
  assumes "reliable w" "idle w" "old_aggregate_id body = Some old" "aggregates (committed w) old = None"
  shows "replaceAggregate user body w =
     (Inr (Reply 404 (ErrorMsg ''Old aggregate not found'')), w\<lparr>trips := trips w + 4\<rparr>)"
  using assms
  by (simp add: replaceAggregate_def io_defs stmt_defs reliable_def idle_def)

lemma replace2_ok:
  assumes "reliable w" "idle w" "old_aggregate_id body = Some old" "new_aggregate_id body = Some new"
    "aggregates (committed w) old = Some ro" "aggregates (committed w) new = Some rn" "old \<noteq> new"
    "referencesWagon (committed w) (current_wagon_id ro)"
    "charCount (requestTenant user) \<le> 100" "charCount (email user) \<le> 255"
    "charCount (userName user) \<le> 255"
    "int4 (Some old)" "int4 (Some new)" "int4 (current_wagon_id ro)"
  shows "replaceAggregate2 user body w =
     (Inr (Reply 200 (Success ''Aggregate replaced successfully'')),
      w\<lparr>trips := trips w + 8,
        committed := (committed w)\<lparr>
          aggregates := (aggregates (committed w))
             (old \<mapsto> ro\<lparr>is_spare := True, current_wagon_id := None, status := ''maintenance''\<rparr>,
              new \<mapsto> rn\<lparr>is_spare := False, current_wagon_id := current_wagon_id ro, status := ''operational''\<rparr>),
          aggregate_replacements := aggregate_replacements (committed w) @
            [\<lparr>rep_tenant_id = requestTenant user, rep_old_aggregate_id = Some old,
              rep_new_aggregate_id = Some new, rep_wagon_id = current_wagon_id ro,
              rep_reason = reason body, replaced_by = email user\<rparr>],
          audit_logs := audit_logs (committed w) @
            [\<lparr>audit_tenant_id = requestTenant user, user_email = email user, user_name = userName user,
              action = ''REPLACE'', entity_type = ''aggregate'', entity_id = showInt new,
              old_value = None, new_value = None,
              description = ''Replaced aggregate '' @ showInt old @ '' with '' @ showInt new @ '': '' @
                 templateString (reason body)\<rparr>]\<rparr>\<rparr>)"
  using assms charCount_showInt [of new]
  by (auto simp add: replaceAggregate2_def io_defs stmt_defs reliable_def idle_def templateId_def
      storeVarchar_fits charCount_constants split: option.splits)

lemma replace2_missing:
  assumes "reliable w" "idle w" "old_aggregate_id body = Some old" "aggregates (committed w) old = None"
  shows "replaceAggregate2 user body w =
     (Inr (Reply 500 (ErrorMsg ''Failed to replace aggregate'')), w\<lparr>trips := trips w + 4\<rparr>)"
  using assms
  by (simp add: replaceAggregate2_def io_defs stmt_defs reliable_def idle_def)

lemma replaceCars_ok:
  assumes "reliable w" "idle w" "old_aggregate_id body = Some old" "new_aggregate_id body = Some new"
    "aggregates (committed w) old = Some ro" "aggregates (committed w) new = Some rn" "old \<noteq> new"
  shows "replaceAggregateCars now body w =
     (Inr (Reply 200 (Success ''Aggregate replaced successfully'')),
      w\<lparr>trips := trips w + 5,
        committed := (committed w)\<lparr>
          aggregates := (aggregates (committed w))
             (old \<mapsto> ro\<lparr>current_wagon_id := None, status := ''reserve'', updated_at := now\<rparr>,
              new \<mapsto> rn\<lparr>current_wagon_id := car_id body, status := ''operational'', updated_at := now\<rparr>)\<rparr>\<rparr>)"
  using assms
  by (simp add: replaceAggregateCars_def io_defs stmt_defs reliable_def idle_def)

lemma replaceCars_missing:
  assumes "reliable w" "idle w" "old_aggregate_id body = Some old" "new_aggregate_id body = Some new"
    "aggregates (committed w) old = None" "aggregates (committed w) new = Some rn"
  shows "replaceAggregateCars now body w =
     (Inr (Reply 200 (Success ''Aggregate replaced successfully'')),
      w\<lparr>trips := trips w + 5,
        committed := (committed w)\<lparr>
          aggregates := (aggregates (committed w))
             (new \<mapsto> rn\<lparr>current_wagon_id := car_id body, status := ''operational'', updated_at := now\<rparr>)\<rparr>\<rparr>)"
  using assms
  by (simp add: replaceAggregateCars_def io_defs stmt_defs reliable_def idle_def)

text \<open>
  C1, as stated, on the cars module: replacing aggregate 10 (attached to wagon 7) by
  aggregate 20 succeeds, leaves aggregate 10 with status \<open>reserve\<close> and its spare flag
  clear, and writes no \<open>aggregate_replacements\<close> row and no \<open>audit_logs\<close> row.
\<close>

theorem C1_replace_cars_counterexample:
  "aggregates exampleDb 10 =
     Some \<lparr>aggregate_number = ''AGG-10'', status = ''operational'', current_wagon_id = Some 7,
            is_spare = False, current_temperature = None, pressure_value = None, updated_at = 0\<rparr> \<and>
   fst (replaceAggregateCars 1
          \<lparr>old_aggregate_id = Some 10, new_aggregate_id = Some 20, reason = Some ''fault'',
           car_id = Some 7\<rparr> exampleWorld) =
     Inr (Reply 200 (Success ''Aggregate replaced successfully'')) \<and>
   aggregates (committed (snd (replaceAggregateCars 1
          \<lparr>old_aggregate_id = Some 10, new_aggregate_id = Some 20, reason = Some ''fault'',
           car_id = Some 7\<rparr> exampleWorld))) 10 =
     Some \<lparr>aggregate_number = ''AGG-10'', status = ''reserve'', current_wagon_id = None,
            is_spare = False, current_temperature = None, pressure_value = None, updated_at = 1\<rparr> \<and>
   aggregate_replacements (committed (snd (replaceAggregateCars 1
          \<lparr>old_aggregate_id = Some 10, new_aggregate_id = Some 20, reason = Some ''fault'',
           car_id = Some 7\<rparr> exampleWorld))) = [] \<and>
   audit_logs (committed (snd (replaceAggregateCars 1
          \<lparr>old_aggregate_id = Some 10, new_aggregate_id = Some 20, reason = Some ''fault'',
           car_id = Some 7\<rparr> exampleWorld))) = []"
  by (simp add: replaceAggregateCars_def io_defs stmt_defs example_defs POOL_MAX_def)

text \<open>
  C1 (amended). For a request that names the old aggregate \<open>old\<close> and the new
  aggregate \<open>new\<close> and a handler that starts with no transaction open. In every
  world, whatever round trips fail, each of the three handlers answers with success
  or leaves the committed database as it was. In a world where no round trip fails
  and a connection is free:

  \<^item> Both admin modules, when \<open>old\<close> exists and is attached to the existing wagon
    \<open>wg\<close>, \<open>new\<close> exists, \<open>old \<noteq> new\<close>, and the values to be logged fit their
    columns (the user's tenant id has at most 100 characters, the e-mail address and
    the name at most 255 each, and the three keys are 32-bit integers): the reply is
    the success body; afterwards \<open>old\<close> is detached, flagged spare, with status
    \<open>maintenance\<close>; \<open>new\<close> is attached to \<open>wg\<close>, not spare, with status
    \<open>operational\<close>; no other aggregate changes; exactly one \<open>aggregate_replacements\<close>
    row (\<open>old\<close>, \<open>new\<close>, \<open>wg\<close>) and exactly one \<open>audit_logs\<close> row are appended.
    The first module's audit row names \<open>old\<close> as entity and carries the snapshots
    (\<open>old\<close>, \<open>wg\<close>) and (\<open>new\<close>, \<open>wg\<close>); the second module's names \<open>new\<close> as
    entity and \<open>old\<close> and \<open>new\<close> in its description.
  \<^item> Both admin modules, when \<open>old\<close> does not exist: the committed database is the one
    before the call; the first module answers \<open>404\<close>.
  \<^item> The cars module checks nothing and logs nothing: when both aggregates exist and
    differ, \<open>old\<close> is detached with status \<open>reserve\<close>, \<open>new\<close> gets the request's
    \<open>car_id\<close> and status \<open>operational\<close>, and nothing else in the database changes
    (no spare flag, no replacement row, no audit row); when \<open>old\<close> does not exist and
    \<open>new\<close> does, the reply is still the success body and \<open>new\<close> is updated.
\<close>

theorem C1_replace:
  assumes "pending w = None"
    and "old_aggregate_id body = Some old" and "new_aggregate_id body = Some new"
  shows
   "(reliable w \<and> held w < POOL_MAX \<longrightarrow>
    (aggregates (committed w) old = Some ro \<and> current_wagon_id ro = Some wg \<and>
     wg \<in> wagons (committed w) \<and> aggregates (committed w) new = Some rn \<and> old \<noteq> new \<and>
     charCount (requestTenant user) \<le> 100 \<and> charCount (email user) \<le> 255 \<and>
     charCount (userName user) \<le> 255 \<and>
     int4 (Some old) \<and> int4 (Some new) \<and> int4 (Some wg) \<longrightarrow>
       fst (replaceAggregate user body w) =
         Inr (Reply 200 (Success ''Aggregate replaced successfully'')) \<and>
       aggregates (committed (snd (replaceAggregate user body w))) =
         (aggregates (committed w))
           (old \<mapsto> ro\<lparr>current_wagon_id := None, is_spare := True, status := ''maintenance''\<rparr>,
            new \<mapsto> rn\<lparr>current_wagon_id := Some wg, is_spare := False, status := ''operational''\<rparr>) \<and>
       aggregate_replacements (committed (snd (replaceAggregate user body w))) =
         aggregate_replacements (committed w) @
           [\<lparr>rep_tenant_id = requestTenant user, rep_old_aggregate_id = Some old,
             rep_new_aggregate_id = Some new, rep_wagon_id = Some wg,
             rep_reason = reason body, replaced_by = email user\<rparr>] \<and>
       audit_logs (committed (snd (replaceAggregate user body w))) =
         audit_logs (committed w) @
           [\<lparr>audit_tenant_id = requestTenant user, user_email = email user,
             user_name = userName user, action = ''REPLACE'', entity_type = ''aggregate'',
             entity_id = showInt old,
             old_value = Some (JObject [(''aggregate_id'', JInt old), (''wagon_id'', JInt wg)]),
             new_value = Some (JObject [(''aggregate_id'', JInt new), (''wagon_id'', JInt wg)]),
             description = ''Replaced aggregate '' @ aggregate_number ro @
               '' with spare. Reason: '' @ templateString (reason body)\<rparr>] \<and>
       fst (replaceAggregate2 user body w) =
         Inr (Reply 200 (Success ''Aggregate replaced successfully'')) \<and>
       aggregates (committed (snd (replaceAggregate2 user body w))) =
         (aggregates (committed w))
           (old \<mapsto> ro\<lparr>is_spare := True, current_wagon_id := None, status := ''maintenance''\<rparr>,
            new \<mapsto> rn\<lparr>is_spare := False, current_wagon_id := Some wg, status := ''operational''\<rparr>) \<and>
       aggregate_replacements (committed (snd (replaceAggregate2 user body w))) =
         aggregate_replacements (committed w) @
           [\<lparr>rep_tenant_id = requestTenant user, rep_old_aggregate_id = Some old,
             rep_new_aggregate_id = Some new, rep_wagon_id = Some wg,
             rep_reason = reason body, replaced_by = email user\<rparr>] \<and>
       audit_logs (committed (snd (replaceAggregate2 user body w))) =
         audit_logs (committed w) @
           [\<lparr>audit_tenant_id = requestTenant user, user_email = email user,
             user_name = userName user, action = ''REPLACE'', entity_type = ''aggregate'',
             entity_id = showInt new, old_value = None, new_value = None,
             description = ''Replaced aggregate '' @ showInt old @ '' with '' @ showInt new @
               '': '' @ templateString (reason body)\<rparr>]) \<and>
    (aggregates (committed w) old = None \<longrightarrow>
       fst (replaceAggregate user body w) = Inr (Reply 404 (ErrorMsg ''Old aggregate not found'')) \<and>
       committed (snd (replaceAggregate user body w)) = committed w \<and>
       committed (snd (replaceAggregate2 user body w)) = committed w) \<and>
    (aggregates (committed w) old = Some ro \<and> aggregates (committed w) new = Some rn \<and>
     old \<noteq> new \<longrightarrow>
       fst (replaceAggregateCars now body w) =
         Inr (Reply 200 (Success ''Aggregate replaced successfully'')) \<and>
       committed (snd (replaceAggregateCars now body w)) =
         (committed w)\<lparr>aggregates := (aggregates (committed w))
           (old \<mapsto> ro\<lparr>current_wagon_id := None, status := ''reserve'', updated_at := now\<rparr>,
            new \<mapsto> rn\<lparr>current_wagon_id := car_id body, status := ''operational'',
                      updated_at := now\<rparr>)\<rparr>) \<and>
    (aggregates (committed w) old = None \<and> aggregates (committed w) new = Some rn \<longrightarrow>
       fst (replaceAggregateCars now body w) =
         Inr (Reply 200 (Success ''Aggregate replaced successfully'')) \<and>
       committed (snd (replaceAggregateCars now body w)) =
         (committed w)\<lparr>aggregates := (aggregates (committed w))
           (new \<mapsto> rn\<lparr>current_wagon_id := car_id body, status := ''operational'',
                      updated_at := now\<rparr>)\<rparr>)) \<and>
    ((fst (replaceAggregate user body w) =
         Inr (Reply 200 (Success ''Aggregate replaced successfully'')) \<or>
       committed (snd (replaceAggregate user body w)) = committed w) \<and>
     (fst (replaceAggregate2 user body w) =
         Inr (Reply 200 (Success ''Aggregate replaced successfully'')) \<or>
       committed (snd (replaceAggregate2 user body w)) = committed w) \<and>
     (fst (replaceAggregateCars now body w) =
         Inr (Reply 200 (Success ''Aggregate replaced successfully'')) \<or>
       committed (snd (replaceAggregateCars now body w)) = committed w))"
    (is "(?rel \<longrightarrow> ?behaviour) \<and> ?atomic")
proof (rule conjI [OF impI])
  show "?atomic"
    by (intro conjI transactions_atomic(2,3,5) [OF assms(1)])
next
  assume "?rel"
  with assms have r: "reliable w" and i: "idle w" by (simp_all add: idle_def)
  note ids = assms(2,3)
  show "?behaviour"
  proof (intro conjI impI)
  assume h: "aggregates (committed w) old = Some ro \<and> current_wagon_id ro = Some wg \<and>
     wg \<in> wagons (committed w) \<and> aggregates (committed w) new = Some rn \<and> old \<noteq> new \<and>
     charCount (requestTenant user) \<le> 100 \<and> charCount (email user) \<le> 255 \<and>
     charCount (userName user) \<le> 255 \<and>
     int4 (Some old) \<and> int4 (Some new) \<and> int4 (Some wg)"
  then have fk: "referencesWagon (committed w) (current_wagon_id ro)"
    by (simp add: referencesWagon_def)
  from h have o: "aggregates (committed w) old = Some ro" and n: "aggregates (committed w) new = Some rn"
    and d: "old \<noteq> new" and g: "current_wagon_id ro = Some wg"
    and ct: "charCount (requestTenant user) \<le> 100" and ce: "charCount (email user) \<le> 255"
    and cn: "charCount (userName user) \<le> 255"
    and io: "int4 (Some old)" and inew: "int4 (Some new)" and iw: "int4 (current_wagon_id ro)"
    by simp_all
  note r1 = replace1_ok [OF r i ids o n d fk ct ce cn io inew iw]
  note r2 = replace2_ok [OF r i ids o n d fk ct ce cn io inew iw]
  show "fst (replaceAggregate user body w) =
         Inr (Reply 200 (Success ''Aggregate replaced successfully''))"
    by (simp add: r1)
  show "aggregates (committed (snd (replaceAggregate user body w))) =
         (aggregates (committed w))
           (old \<mapsto> ro\<lparr>current_wagon_id := None, is_spare := True, status := ''maintenance''\<rparr>,
            new \<mapsto> rn\<lparr>current_wagon_id := Some wg, is_spare := False, status := ''operational''\<rparr>)"
    by (simp add: r1 g)
  show "aggregate_replacements (committed (snd (replaceAggregate user body w))) =
         aggregate_replacements (committed w) @
           [\<lparr>rep_tenant_id = requestTenant user, rep_old_aggregate_id = Some old,
             rep_new_aggregate_id = Some new, rep_wagon_id = Some wg,
             rep_reason = reason body, replaced_by = email user\<rparr>]"
    by (simp add: r1 g)
  show "audit_logs (committed (snd (replaceAggregate user body w))) =
         audit_logs (committed w) @
           [\<lparr>audit_tenant_id = requestTenant user, user_email = email user,
             user_name = userName user, action = ''REPLACE'', entity_type = ''aggregate'',
             entity_id = showInt old,
             old_value = Some (JObject [(''aggregate_id'', JInt old), (''wagon_id'', JInt wg)]),
             new_value = Some (JObject [(''aggregate_id'', JInt new), (''wagon_id'', JInt wg)]),
             description = ''Replaced aggregate '' @ aggregate_number ro @
               '' with spare. Reason: '' @ templateString (reason body)\<rparr>]"
    by (simp add: r1 g jsonColumn_def)
  show "fst (replaceAggregate2 user body w) =
         Inr (Reply 200 (Success ''Aggregate replaced successfully''))"
    by (simp add: r2)
  show "aggregates (committed (snd (replaceAggregate2 user body w))) =
         (aggregates (committed w))
           (old \<mapsto> ro\<lparr>is_spare := True, current_wagon_id := None, status := ''maintenance''\<rparr>,
            new \<mapsto> rn\<lparr>is_spare := False, current_wagon_id := Some wg, status := ''operational''\<rparr>)"
    by (simp add: r2 g)
  show "aggregate_replacements (committed (snd (replaceAggregate2 user body w))) =
         aggregate_replacements (committed w) @
           [\<lparr>rep_tenant_id = requestTenant user, rep_old_aggregate_id = Some old,
             rep_new_aggregate_id = Some new, rep_wagon_id = Some wg,
             rep_reason = reason body, replaced_by = email user\<rparr>]"
    by (simp add: r2 g)
  show "audit_logs (committed (snd (replaceAggregate2 user body w))) =
         audit_logs (committed w) @
           [\<lparr>audit_tenant_id = requestTenant user, user_email = email user,
             user_name = userName user, action = ''REPLACE'', entity_type = ''aggregate'',
             entity_id = showInt new, old_value = None, new_value = None,
             description = ''Replaced aggregate '' @ showInt old @ '' with '' @ showInt new @
               '': '' @ templateString (reason body)\<rparr>]"
    by (simp add: r2)
next
  assume m: "aggregates (committed w) old = None"
  show "fst (replaceAggregate user body w) = Inr (Reply 404 (ErrorMsg ''Old aggregate not found''))"
    by (simp add: replace1_missing [OF r i ids(1) m])
  show "committed (snd (replaceAggregate user body w)) = committed w"
    by (simp add: replace1_missing [OF r i ids(1) m])
  show "committed (snd (replaceAggregate2 user body w)) = committed w"
    by (simp add: replace2_missing [OF r i ids(1) m])
next
  assume h: "aggregates (committed w) old = Some ro \<and> aggregates (committed w) new = Some rn \<and>
     old \<noteq> new"
  then have o: "aggregates (committed w) old = Some ro" and n: "aggregates (committed w) new = Some rn"
    and d: "old \<noteq> new"
    by simp_all
  note rc = replaceCars_ok [OF r i ids o n d, of now]
  show "fst (replaceAggregateCars now body w) =
         Inr (Reply 200 (Success ''Aggregate replaced successfully''))"
    by (simp add: rc)
  show "committed (snd (replaceAggregateCars now body w)) =
         (committed w)\<lparr>aggregates := (aggregates (committed w))
           (old \<mapsto> ro\<lparr>current_wagon_id := None, status := ''reserve'', updated_at := now\<rparr>,
            new \<mapsto> rn\<lparr>current_wagon_id := car_id body, status := ''operational'',
                      updated_at := now\<rparr>)\<rparr>"
    by (simp add: rc)
next
  assume h: "aggregates (committed w) old = None \<and> aggregates (committed w) new = Some rn"
  then have o: "aggregates (committed w) old = None" and n: "aggregates (committed w) new = Some rn"
    by simp_all
  note rc = replaceCars_missing [OF r i ids o n, of now]
  show "fst (replaceAggregateCars now body w) =
         Inr (Reply 200 (Success ''Aggregate replaced successfully''))"
    by (simp add: rc)
  show "committed (snd (replaceAggregateCars now body w)) =
         (committed w)\<lparr>aggregates := (aggregates (committed w))
           (new \<mapsto> rn\<lparr>current_wagon_id := car_id body, status := ''operational'',
                      updated_at := now\<rparr>)\<rparr>"
    by (simp add: rc)
qed
qed

theorem C1_replace_witness:
  "reliable exampleWorld \<and> idle exampleWorld \<and>
   charCount (requestTenant exampleUser) \<le> 100 \<and> charCount (email exampleUser) \<le> 255 \<and>
   charCount (userName exampleUser) \<le> 255 \<and>
   int4 (Some 10) \<and> int4 (Some 20) \<and> int4 (Some 7) \<and>
   fst (replaceAggregate exampleUser
          \<lparr>old_aggregate_id = Some 10, new_aggregate_id = Some 20, reason = Some ''fault'',
           car_id = None\<rparr> exampleWorld) =
     Inr (Reply 200 (Success ''Aggregate replaced successfully'')) \<and>
   aggregates (committed (snd (replaceAggregate exampleUser
          \<lparr>old_aggregate_id = Some 10, new_aggregate_id = Some 20, reason = Some ''fault'',
           car_id = None\<rparr> exampleWorld))) 10 =
     Some \<lparr>aggregate_number = ''AGG-10'', status = ''maintenance'', current_wagon_id = None,
            is_spare = True, current_temperature = None, pressure_value = None, updated_at = 0\<rparr> \<and>
   aggregates (committed (snd (replaceAggregate exampleUser
          \<lparr>old_aggregate_id = Some 10, new_aggregate_id = Some 20, reason = Some ''fault'',
           car_id = None\<rparr> exampleWorld))) 20 =
     Some \<lparr>aggregate_number = ''AGG-20'', status = ''operational'', current_wagon_id = Some 7,
            is_spare = False, current_temperature = None, pressure_value = None, updated_at = 0\<rparr> \<and>
   aggregate_replacements (committed (snd (replaceAggregate exampleUser
          \<lparr>old_aggregate_id = Some 10, new_aggregate_id = Some 20, reason = Some ''fault'',
           car_id = None\<rparr> exampleWorld))) =
     [\<lparr>rep_tenant_id = ''71416bf2-04a4-4715-a8d2-6af239168e20'', rep_old_aggregate_id = Some 10,
       rep_new_aggregate_id = Some 20, rep_wagon_id = Some 7, rep_reason = Some ''fault'',
       replaced_by = ''dev@techra.app''\<rparr>] \<and>
   fst (replaceAggregate exampleUser
          \<lparr>old_aggregate_id = Some 99, new_aggregate_id = Some 20, reason = None,
           car_id = None\<rparr> exampleWorld) =
     Inr (Reply 404 (ErrorMsg ''Old aggregate not found'')) \<and>
   committed (snd (replaceAggregate exampleUser
          \<lparr>old_aggregate_id = Some 99, new_aggregate_id = Some 20, reason = None,
           car_id = None\<rparr> exampleWorld)) = exampleDb \<and>
   committed (snd (replaceAggregate2 exampleUser
          \<lparr>old_aggregate_id = Some 99, new_aggregate_id = Some 20, reason = None,
           car_id = None\<rparr> exampleWorld)) = exampleDb \<and>
   aggregates (committed (snd (replaceAggregateCars 1
          \<lparr>old_aggregate_id = Some 10, new_aggregate_id = Some 20, reason = Some ''fault'',
           car_id = None\<rparr> exampleWorld))) 10 =
     Some \<lparr>aggregate_number = ''AGG-10'', status = ''reserve'', current_wagon_id = None,
            is_spare = False, current_temperature = None, pressure_value = None, updated_at = 1\<rparr> \<and>
   fst (replaceAggregateCars 1
          \<lparr>old_aggregate_id = Some 99, new_aggregate_id = Some 20, reason = None,
           car_id = None\<rparr> exampleWorld) =
     Inr (Reply 200 (Success ''Aggregate replaced successfully''))"
proof -
  have o: "aggregates (committed exampleWorld) 10 =
      Some \<lparr>aggregate_number = ''AGG-10'', status = ''operational'',
                 current_wagon_id = Some 7, is_spare = False,
                 current_temperature = None, pressure_value = None, updated_at = 0\<rparr>"
    and n: "aggregates (committed exampleWorld) 20 =
      Some \<lparr>aggregate_number = ''AGG-20'', status = ''reserve'',
                 current_wagon_id = None, is_spare = True,
                 current_temperature = None, pressure_value = None, updated_at = 0\<rparr>"
    and m: "aggregates (committed exampleWorld) 99 = None"
    and g: "7 \<in> wagons (committed exampleWorld)"
    and l: "aggregate_replacements (committed exampleWorld) = []"
    and c: "committed exampleWorld = exampleDb"
    and t: "requestTenant exampleUser = ''71416bf2-04a4-4715-a8d2-6af239168e20''"
    and e: "email exampleUser = ''dev@techra.app''"
    and p: "pending exampleWorld = None"
    and h: "held exampleWorld < POOL_MAX"
    by (simp_all add: example_defs requestTenant_def orDefault_def POOL_MAX_def)
  have f: "charCount (requestTenant exampleUser) \<le> 100" "charCount (email exampleUser) \<le> 255"
    "charCount (userName exampleUser) \<le> 255" "int4 (Some 10)" "int4 (Some 20)" "int4 (Some 7)"
    by (simp_all add: example_defs requestTenant_def orDefault_def column_defs)
  from o n m g l c t e h f example_reliable example_idle
    C1_replace [OF p, where old = 10 and new = 20 and wg = 7
      and body = "\<lparr>old_aggregate_id = Some 10, new_aggregate_id = Some 20, reason = Some ''fault'',
           car_id = None\<rparr>"
      and user = exampleUser and now = 1
      and ro = "\<lparr>aggregate_number = ''AGG-10'', status = ''operational'',
                 current_wagon_id = Some 7, is_spare = False,
                 current_temperature = None, pressure_value = None, updated_at = 0\<rparr>"
      and rn = "\<lparr>aggregate_number = ''AGG-20'', status = ''reserve'',
                 current_wagon_id = None, is_spare = True,
                 current_temperature = None, pressure_value = None, updated_at = 0\<rparr>"]
    C1_replace [OF p, where old = 99 and new = 20
      and body = "\<lparr>old_aggregate_id = Some 99, new_aggregate_id = Some 20, reason = None,
           car_id = None\<rparr>"
      and user = exampleUser and now = 1
      and rn = "\<lparr>aggregate_number = ''AGG-20'', status = ''reserve'',
                 current_wagon_id = None, is_spare = True,
                 current_temperature = None, pressure_value = None, updated_at = 0\<rparr>"]
  show ?thesis
    by simp
qed

section \<open>The attached-and-spare invariant (C2)\<close>

lemma replace1_consistent:
  assumes "pending w = None" "consistent (committed w)"
  shows "consistent (committed (snd (replaceAggregate user body w)))"
  using assms replace_keeps(1) [of user body]
  by (simp add: keeps_def everywhere_def)

lemma replace2_consistent:
  assumes "pending w = None" "consistent (committed w)"
  shows "consistent (committed (snd (replaceAggregate2 user body w)))"
  using assms replace_keeps(2) [of user body]
  by (simp add: keeps_def everywhere_def)

lemma unassign_consistent:
  assumes "consistent (committed w)"
  shows "consistent (committed (snd (unassignAggregate now a w)))"
  using assms
  by (auto simp add: unassignAggregate_def io_defs stmt_defs consistent_def rowConsistent_def split: option.splits list.splits if_splits)

lemma assign_spareFlag:
  assumes "pending w = None"
  shows "spareFlag (committed (snd (assign a wid w))) = spareFlag (committed w)"
  using assms
  by (auto simp add: fun_eq_iff spareFlag_def assign_def io_defs stmt_defs split: option.splits list.splits if_splits)

lemma move_spareFlag:
  "spareFlag (committed (snd (moveAggregate now a c w))) = spareFlag (committed w)"
  by (auto simp add: fun_eq_iff spareFlag_def moveAggregate_def io_defs stmt_defs split: option.splits list.splits if_splits)

lemma swap_spareFlag:
  assumes "pending w = None"
  shows "spareFlag (committed (snd (swapAggregates now a tb w))) = spareFlag (committed w)"
  using assms
  by (auto simp add: fun_eq_iff spareFlag_def swapAggregates_def io_defs stmt_defs split: option.splits list.splits if_splits)

lemma replaceCars_spareFlag:
  assumes "pending w = None"
  shows "spareFlag (committed (snd (replaceAggregateCars now body w))) = spareFlag (committed w)"
  using assms
  by (auto simp add: fun_eq_iff spareFlag_def replaceAggregateCars_def io_defs stmt_defs split: option.splits list.splits if_splits)

text \<open>
  The four handlers that never write the spare flag keep the invariant when the
  aggregate that receives a wagon reference is not flagged spare.
\<close>

lemma assign_consistent:
  assumes "pending w = None" "consistent (committed w)"
    "wid \<noteq> None \<longrightarrow> spareFlag (committed w) a \<noteq> Some True"
  shows "consistent (committed (snd (assign a wid w)))"
  using assms
  by (auto simp add: assign_def io_defs stmt_defs consistent_def rowConsistent_def spareFlag_def
      split: option.splits list.splits if_splits)

lemma move_consistent:
  assumes "consistent (committed w)" "spareFlag (committed w) a \<noteq> Some True"
  shows "consistent (committed (snd (moveAggregate now a c w)))"
  using assms
  by (auto simp add: moveAggregate_def io_defs stmt_defs consistent_def rowConsistent_def spareFlag_def
      split: option.splits list.splits if_splits)

lemma swap_consistent:
  assumes "pending w = None" "consistent (committed w)"
    "\<forall>b wg. tb = Some b \<longrightarrow>
       (wagonOf (committed w) b = Some (Some wg) \<longrightarrow> spareFlag (committed w) a \<noteq> Some True) \<and>
       (wagonOf (committed w) a = Some (Some wg) \<longrightarrow> spareFlag (committed w) b \<noteq> Some True)"
  shows "consistent (committed (snd (swapAggregates now a tb w)))"
  using assms
  by (auto simp add: swapAggregates_def io_defs stmt_defs consistent_def rowConsistent_def
      spareFlag_def wagonOf_def split: option.splits list.splits if_splits)

lemma replaceCars_consistent:
  assumes "pending w = None" "consistent (committed w)"
    "\<forall>n. new_aggregate_id body = Some n \<and> car_id body \<noteq> None \<longrightarrow>
        spareFlag (committed w) n \<noteq> Some True"
  shows "consistent (committed (snd (replaceAggregateCars now body w)))"
  using assms
  by (auto simp add: replaceAggregateCars_def io_defs stmt_defs consistent_def rowConsistent_def
      spareFlag_def split: option.splits list.splits if_splits)

text \<open>
  C2, as stated, on the concrete fleet: the database is consistent, and after
  \<open>assign\<close> of the spare aggregate 20 to wagon 7 it is not (aggregate 20 is attached
  and flagged spare).
\<close>

theorem C2_assign_spare_counterexample:
  "consistent exampleDb \<and> \<not> consistent (committed (snd (assign 20 (Some 7) exampleWorld)))"
proof -
  have "aggregates (committed (snd (assign 20 (Some 7) exampleWorld))) 20 =
     Some \<lparr>aggregate_number = ''AGG-20'', status = ''reserve'', current_wagon_id = Some 7,
            is_spare = True, current_temperature = None, pressure_value = None, updated_at = 0\<rparr>"
    by (simp add: assign_def io_defs stmt_defs example_defs POOL_MAX_def)
  then have "\<not> consistent (committed (snd (assign 20 (Some 7) exampleWorld)))"
    unfolding consistent_def rowConsistent_def by force
  with example_consistent show ?thesis by simp
qed

text \<open>
  C2 (amended). For a handler that starts with no transaction open, and whatever
  round trips fail. On a database that satisfies the invariant (no aggregate both
  attached and flagged spare):

  \<^item> Replace of both admin modules and Unassign keep the invariant.
  \<^item> Assign keeps it when the request names no wagon or the aggregate is not flagged
    spare; Move keeps it when the aggregate is not flagged spare.
  \<^item> Swap keeps it when neither of the two aggregates is flagged spare while the
    other one is attached.
  \<^item> The cars module's Replace keeps it when the request names no car or the new
    aggregate is not flagged spare.

  On every database, Assign, Move, Swap and the cars module's Replace leave the spare
  flag of every aggregate as it was.
\<close>

theorem C2_invariant:
  assumes "pending w = None"
  shows
   "(consistent (committed w) \<longrightarrow>
       consistent (committed (snd (replaceAggregate user body w))) \<and>
       consistent (committed (snd (replaceAggregate2 user body w))) \<and>
       consistent (committed (snd (unassignAggregate now a w))) \<and>
       ((wid \<noteq> None \<longrightarrow> spareFlag (committed w) a \<noteq> Some True) \<longrightarrow>
          consistent (committed (snd (assign a wid w)))) \<and>
       (spareFlag (committed w) a \<noteq> Some True \<longrightarrow>
          consistent (committed (snd (moveAggregate now a c w)))) \<and>
       ((\<forall>b wg. tb = Some b \<longrightarrow>
           (wagonOf (committed w) b = Some (Some wg) \<longrightarrow> spareFlag (committed w) a \<noteq> Some True) \<and>
           (wagonOf (committed w) a = Some (Some wg) \<longrightarrow> spareFlag (committed w) b \<noteq> Some True)) \<longrightarrow>
          consistent (committed (snd (swapAggregates now a tb w)))) \<and>
       ((\<forall>n. new_aggregate_id body = Some n \<and> car_id body \<noteq> None \<longrightarrow>
            spareFlag (committed w) n \<noteq> Some True) \<longrightarrow>
          consistent (committed (snd (replaceAggregateCars now body w))))) \<and>
    spareFlag (committed (snd (assign a wid w))) = spareFlag (committed w) \<and>
    spareFlag (committed (snd (moveAggregate now a c w))) = spareFlag (committed w) \<and>
    spareFlag (committed (snd (swapAggregates now a tb w))) = spareFlag (committed w) \<and>
    spareFlag (committed (snd (replaceAggregateCars now body w))) = spareFlag (committed w)"
    (is "(?inv \<longrightarrow> ?kept) \<and> ?flags")
proof (rule conjI [OF impI])
  show "?flags"
    using assms
    by (simp add: assign_spareFlag move_spareFlag swap_spareFlag replaceCars_spareFlag)
next
  assume c: "?inv"
  show "?kept"
  proof (intro conjI impI)
    show "consistent (committed (snd (replaceAggregate user body w)))"
      by (rule replace1_consistent [OF assms c])
    show "consistent (committed (snd (replaceAggregate2 user body w)))"
      by (rule replace2_consistent [OF assms c])
    show "consistent (committed (snd (unassignAggregate now a w)))"
      by (rule unassign_consistent [OF c])
  next
    assume "wid \<noteq> None \<longrightarrow> spareFlag (committed w) a \<noteq> Some True"
    then show "consistent (committed (snd (assign a wid w)))"
      by (rule assign_consistent [OF assms c])
  next
    assume "spareFlag (committed w) a \<noteq> Some True"
    then show "consistent (committed (snd (moveAggregate now a c w)))"
      by (rule move_consistent [OF c])
  next
    assume "\<forall>b wg. tb = Some b \<longrightarrow>
           (wagonOf (committed w) b = Some (Some wg) \<longrightarrow> spareFlag (committed w) a \<noteq> Some True) \<and>
           (wagonOf (committed w) a = Some (Some wg) \<longrightarrow> spareFlag (committed w) b \<noteq> Some True)"
    then show "consistent (committed (snd (swapAggregates now a tb w)))"
      by (rule swap_consistent [OF assms c])
  next
    assume "\<forall>n. new_aggregate_id body = Some n \<and> car_id body \<noteq> None \<longrightarrow>
            spareFlag (committed w) n \<noteq> Some True"
    then show "consistent (committed (snd (replaceAggregateCars now body w)))"
      by (rule replaceCars_consistent [OF assms c])
  qed
qed

theorem C2_invariant_witness:
  "pending exampleWorld = None \<and> consistent (committed exampleWorld) \<and>
   spareFlag (committed exampleWorld) 10 = Some False \<and>
   spareFlag (committed exampleWorld) 20 = Some True \<and>
   spareFlag (committed exampleWorld) 30 = Some False \<and>
   wagonOf (committed exampleWorld) 10 = Some (Some 7) \<and>
   wagonOf (committed exampleWorld) 30 = Some (Some 8) \<and>
   consistent (committed (snd (replaceAggregate exampleUser
          \<lparr>old_aggregate_id = Some 10, new_aggregate_id = Some 30, reason = Some ''fault'',
           car_id = Some 7\<rparr> exampleWorld))) \<and>
   consistent (committed (snd (replaceAggregate2 exampleUser
          \<lparr>old_aggregate_id = Some 10, new_aggregate_id = Some 30, reason = Some ''fault'',
           car_id = Some 7\<rparr> exampleWorld))) \<and>
   consistent (committed (snd (unassignAggregate 1 10 exampleWorld))) \<and>
   consistent (committed (snd (assign 10 (Some 8) exampleWorld))) \<and>
   consistent (committed (snd (moveAggregate 1 10 8 exampleWorld))) \<and>
   consistent (committed (snd (swapAggregates 1 10 (Some 30) exampleWorld))) \<and>
   consistent (committed (snd (replaceAggregateCars 1
          \<lparr>old_aggregate_id = Some 10, new_aggregate_id = Some 30, reason = Some ''fault'',
           car_id = Some 7\<rparr> exampleWorld))) \<and>
   consistent (committed (snd (assign 20 None exampleWorld))) \<and>
   spareFlag (committed (snd (assign 20 (Some 7) exampleWorld))) = spareFlag exampleDb"
proof -
  have p: "pending exampleWorld = None"
    and c: "committed exampleWorld = exampleDb"
    by (simp_all add: exampleWorld_def)
  have f: "spareFlag (committed exampleWorld) 10 = Some False"
    "spareFlag (committed exampleWorld) 20 = Some True"
    "spareFlag (committed exampleWorld) 30 = Some False"
    "wagonOf (committed exampleWorld) 10 = Some (Some 7)"
    "wagonOf (committed exampleWorld) 30 = Some (Some 8)"
    by (simp_all add: spareFlag_def wagonOf_def example_defs)
  from p f example_consistent
    C2_invariant [OF p, where user = exampleUser and now = 1 and a = 10 and wid = "Some 8"
      and c = 8 and tb = "Some 30"
      and body = "\<lparr>old_aggregate_id = Some 10, new_aggregate_id = Some 30, reason = Some ''fault'',
           car_id = Some 7\<rparr>"]
    C2_invariant [OF p, where a = 20 and wid = None]
    C2_invariant [OF p, where a = 20 and wid = "Some 7"]
  show ?thesis
    by (simp add: c)
qed

section \<open>Recording a reading (C5)\<close>

lemma reading_ok:
  assumes "reliable w" "held w < POOL_MAX"
  shows "recordReading a body w =
     (Inr (Reply 200 (ReadingRow
        \<lparr>reading_aggregate_id = a, temperature = body_temperature body,
         pressure = body_pressure body, humidity = body_humidity body,
         power_consumption = body_power_consumption body,
         error_codes = body_error_codes body\<rparr>)),
      w\<lparr>trips := trips w + 2,
        committed := (committed w)\<lparr>
          sensor_readings := sensor_readings (committed w) @
            [\<lparr>reading_aggregate_id = a, temperature = body_temperature body,
              pressure = body_pressure body, humidity = body_humidity body,
              power_consumption = body_power_consumption body,
              error_codes = body_error_codes body\<rparr>],
          aggregates := (case aggregates (committed w) a of
             None \<Rightarrow> aggregates (committed w)
           | Some r \<Rightarrow> (aggregates (committed w))(a \<mapsto>
               r\<lparr>current_temperature := body_temperature body,
                 pressure_value := body_pressure body\<rparr>))\<rparr>\<rparr>)"
  using assms
  by (simp add: recordReading_def io_defs stmt_defs reliable_def split: option.splits)

lemma reading_second_fails:
  assumes "\<not> failing w (trips w)" "failing w (trips w + 1)" "held w < POOL_MAX"
  shows "recordReading a body w =
     (Inr (Reply 500 (ErrorMsg ''Failed to record reading'')),
      w\<lparr>trips := trips w + 2,
        committed := (committed w)\<lparr>
          sensor_readings := sensor_readings (committed w) @
            [\<lparr>reading_aggregate_id = a, temperature = body_temperature body,
              pressure = body_pressure body, humidity = body_humidity body,
              power_consumption = body_power_consumption body,
              error_codes = body_error_codes body\<rparr>]\<rparr>\<rparr>)"
  using assms
  by (simp add: recordReading_def io_defs stmt_defs)

lemma reading_history_first:
  assumes "aggregates (committed (snd (recordReading a body w))) \<noteq> aggregates (committed w)"
  shows "sensor_readings (committed (snd (recordReading a body w))) =
     sensor_readings (committed w) @
            [\<lparr>reading_aggregate_id = a, temperature = body_temperature body,
              pressure = body_pressure body, humidity = body_humidity body,
              power_consumption = body_power_consumption body,
              error_codes = body_error_codes body\<rparr>]"
  using assms
  by (auto simp add: recordReading_def io_defs stmt_defs split: option.splits if_splits)

text \<open>
  C5, as stated, when the second round trip of the handler fails: the reply is
  \<open>500\<close>, the history row is in \<open>sensor_readings\<close> and aggregate 10 still has its
  old live values.
\<close>

theorem C5_second_statement_fails_counterexample:
  "fst (recordReading 10
      \<lparr>body_temperature = Some 21, body_pressure = Some 3, body_humidity = None,
       body_power_consumption = None, body_error_codes = None\<rparr>
      (exampleWorld\<lparr>failing := (\<lambda>n. n = 1)\<rparr>)) =
     Inr (Reply 500 (ErrorMsg ''Failed to record reading'')) \<and>
   sensor_readings (committed (snd (recordReading 10
      \<lparr>body_temperature = Some 21, body_pressure = Some 3, body_humidity = None,
       body_power_consumption = None, body_error_codes = None\<rparr>
      (exampleWorld\<lparr>failing := (\<lambda>n. n = 1)\<rparr>)))) =
     [\<lparr>reading_aggregate_id = 10, temperature = Some 21, pressure = Some 3, humidity = None,
       power_consumption = None, error_codes = None\<rparr>] \<and>
   aggregates (committed (snd (recordReading 10
      \<lparr>body_temperature = Some 21, body_pressure = Some 3, body_humidity = None,
       body_power_consumption = None, body_error_codes = None\<rparr>
      (exampleWorld\<lparr>failing := (\<lambda>n. n = 1)\<rparr>)))) 10 =
     Some \<lparr>aggregate_number = ''AGG-10'', status = ''operational'', current_wagon_id = Some 7,
            is_spare = False, current_temperature = None, pressure_value = None, updated_at = 0\<rparr>"
  by (simp add: recordReading_def io_defs stmt_defs example_defs POOL_MAX_def)

text \<open>
  C5 (amended). \<open>recordReading\<close> runs two statements that commit one after the
  other. When no round trip fails and a connection is free, the reply is the inserted
  row, the row is appended to \<open>sensor_readings\<close> and an existing aggregate carries the
  reading's temperature and pressure. In every world, the aggregates change only
  together with the appended history row: live values are never updated without
  their history row. When the first round trip succeeds and the second fails, the reply
  is \<open>500\<close>, the history row stays and the aggregates are as before.
\<close>

theorem C5_recordReading:
  "(reliable w \<and> held w < POOL_MAX \<longrightarrow>
      fst (recordReading a body w) =
        Inr (Reply 200 (ReadingRow
          \<lparr>reading_aggregate_id = a, temperature = body_temperature body,
           pressure = body_pressure body, humidity = body_humidity body,
           power_consumption = body_power_consumption body,
           error_codes = body_error_codes body\<rparr>)) \<and>
      sensor_readings (committed (snd (recordReading a body w))) =
        sensor_readings (committed w) @
          [\<lparr>reading_aggregate_id = a, temperature = body_temperature body,
            pressure = body_pressure body, humidity = body_humidity body,
            power_consumption = body_power_consumption body,
            error_codes = body_error_codes body\<rparr>] \<and>
      (\<forall>r. aggregates (committed w) a = Some r \<longrightarrow>
         aggregates (committed (snd (recordReading a body w))) a =
           Some (r\<lparr>current_temperature := body_temperature body,
                   pressure_value := body_pressure body\<rparr>))) \<and>
   (aggregates (committed (snd (recordReading a body w))) \<noteq> aggregates (committed w) \<longrightarrow>
      sensor_readings (committed (snd (recordReading a body w))) =
        sensor_readings (committed w) @
          [\<lparr>reading_aggregate_id = a, temperature = body_temperature body,
            pressure = body_pressure body, humidity = body_humidity body,
            power_consumption = body_power_consumption body,
            error_codes = body_error_codes body\<rparr>]) \<and>
   (\<not> failing w (trips w) \<and> failing w (trips w + 1) \<and> held w < POOL_MAX \<longrightarrow>
      fst (recordReading a body w) = Inr (Reply 500 (ErrorMsg ''Failed to record reading'')) \<and>
      sensor_readings (committed (snd (recordReading a body w))) =
        sensor_readings (committed w) @
          [\<lparr>reading_aggregate_id = a, temperature = body_temperature body,
            pressure = body_pressure body, humidity = body_humidity body,
            power_consumption = body_power_consumption body,
            error_codes = body_error_codes body\<rparr>] \<and>
      aggregates (committed (snd (recordReading a body w))) = aggregates (committed w))"
proof (intro conjI impI)
  assume h: "reliable w \<and> held w < POOL_MAX"
  then have r: "reliable w" and f: "held w < POOL_MAX" by simp_all
  note ok = reading_ok [OF r f, of a body]
  show "fst (recordReading a body w) =
        Inr (Reply 200 (ReadingRow
          \<lparr>reading_aggregate_id = a, temperature = body_temperature body,
           pressure = body_pressure body, humidity = body_humidity body,
           power_consumption = body_power_consumption body,
           error_codes = body_error_codes body\<rparr>))"
    by (simp add: ok)
  show "sensor_readings (committed (snd (recordReading a body w))) =
        sensor_readings (committed w) @
          [\<lparr>reading_aggregate_id = a, temperature = body_temperature body,
            pressure = body_pressure body, humidity = body_humidity body,
            power_consumption = body_power_consumption body,
            error_codes = body_error_codes body\<rparr>]"
    by (simp add: ok)
  show "\<forall>r. aggregates (committed w) a = Some r \<longrightarrow>
         aggregates (committed (snd (recordReading a body w))) a =
           Some (r\<lparr>current_temperature := body_temperature body,
                   pressure_value := body_pressure body\<rparr>)"
    by (simp add: ok)
next
  assume "aggregates (committed (snd (recordReading a body w))) \<noteq> aggregates (committed w)"
  then show "sensor_readings (committed (snd (recordReading a body w))) =
        sensor_readings (committed w) @
          [\<lparr>reading_aggregate_id = a, temperature = body_temperature body,
            pressure = body_pressure body, humidity = body_humidity body,
            power_consumption = body_power_consumption body,
            error_codes = body_error_codes body\<rparr>]"
    by (rule reading_history_first)
next
  assume h: "\<not> failing w (trips w) \<and> failing w (trips w + 1) \<and> held w < POOL_MAX"
  then have a1: "\<not> failing w (trips w)" and a2: "failing w (trips w + 1)" and a3: "held w < POOL_MAX"
    by simp_all
  note bad = reading_second_fails [OF a1 a2 a3, of a body]
  show "fst (recordReading a body w) = Inr (Reply 500 (ErrorMsg ''Failed to record reading''))"
    by (simp add: bad)
  show "sensor_readings (committed (snd (recordReading a body w))) =
        sensor_readings (committed w) @
          [\<lparr>reading_aggregate_id = a, temperature = body_temperature body,
            pressure = body_pressure body, humidity = body_humidity body,
            power_consumption = body_power_consumption body,
            error_codes = body_error_codes body\<rparr>]"
    by (simp add: bad)
  show "aggregates (committed (snd (recordReading a body w))) = aggregates (committed w)"
    by (simp add: bad)
qed

theorem C5_recordReading_witness:
  "reliable exampleWorld \<and> held exampleWorld < POOL_MAX \<and>
   sensor_readings (committed (snd (recordReading 10
      \<lparr>body_temperature = Some 21, body_pressure = Some 3, body_humidity = None,
       body_power_consumption = None, body_error_codes = None\<rparr> exampleWorld))) =
     [\<lparr>reading_aggregate_id = 10, temperature = Some 21, pressure = Some 3, humidity = None,
       power_consumption = None, error_codes = None\<rparr>] \<and>
   aggregates (committed (snd (recordReading 10
      \<lparr>body_temperature = Some 21, body_pressure = Some 3, body_humidity = None,
       body_power_consumption = None, body_error_codes = None\<rparr> exampleWorld))) 10 =
     Some \<lparr>aggregate_number = ''AGG-10'', status = ''operational'', current_wagon_id = Some 7,
            is_spare = False, current_temperature = Some 21, pressure_value = Some 3, updated_at = 0\<rparr> \<and>
   fst (recordReading 10
      \<lparr>body_temperature = Some 21, body_pressure = Some 3, body_humidity = None,
       body_power_consumption = None, body_error_codes = None\<rparr>
      (exampleWorld\<lparr>failing := (\<lambda>n. n = 1)\<rparr>)) =
     Inr (Reply 500 (ErrorMsg ''Failed to record reading'')) \<and>
   aggregates (committed (snd (recordReading 10
      \<lparr>body_temperature = Some 21, body_pressure = Some 3, body_humidity = None,
       body_power_consumption = None, body_error_codes = None\<rparr>
      (exampleWorld\<lparr>failing := (\<lambda>n. n = 1)\<rparr>)))) = aggregates exampleDb"
proof -
  have h: "held exampleWorld < POOL_MAX"
    and o: "aggregates (committed exampleWorld) 10 =
      Some \<lparr>aggregate_number = ''AGG-10'', status = ''operational'',
                 current_wagon_id = Some 7, is_spare = False,
                 current_temperature = None, pressure_value = None, updated_at = 0\<rparr>"
    and l: "sensor_readings (committed exampleWorld) = []"
    and f: "\<not> failing (exampleWorld\<lparr>failing := (\<lambda>n. n = 1)\<rparr>) (trips (exampleWorld\<lparr>failing := (\<lambda>n. n = 1)\<rparr>))"
       "failing (exampleWorld\<lparr>failing := (\<lambda>n. n = 1)\<rparr>) (trips (exampleWorld\<lparr>failing := (\<lambda>n. n = 1)\<rparr>) + 1)"
       "held (exampleWorld\<lparr>failing := (\<lambda>n. n = 1)\<rparr>) < POOL_MAX"
       "committed (exampleWorld\<lparr>failing := (\<lambda>n. n = 1)\<rparr>) = exampleDb"
    by (simp_all add: example_defs POOL_MAX_def)
  from h o l f example_reliable
    C5_recordReading [of exampleWorld 10
      "\<lparr>body_temperature = Some 21, body_pressure = Some 3, body_humidity = None,
       body_power_consumption = None, body_error_codes = None\<rparr>"]
    C5_recordReading [of "exampleWorld\<lparr>failing := (\<lambda>n. n = 1)\<rparr>" 10
      "\<lparr>body_temperature = Some 21, body_pressure = Some 3, body_humidity = None,
       body_power_consumption = None, body_error_codes = None\<rparr>"]
  show ?thesis
    by simp
qed

section \<open>Connections of transactional handlers (C6)\<close>

text \<open>
  The transactional lifecycle handlers hold as many connections after the call as
  before it, in every world.
\<close>

lemma transactions_release:
  "held (snd (assign a wid w)) = held w"
  "held (snd (replaceAggregate user body w)) = held w"
  "held (snd (replaceAggregate2 user body w)) = held w"
  "held (snd (swapAggregates now a tb w)) = held w"
  "held (snd (replaceAggregateCars now body w)) = held w"
  unfolding assign_def replaceAggregate_def replaceAggregate2_def swapAggregates_def
    replaceAggregateCars_def
  by ((rule held_caught held_frame
        | rule held_client keeps_ret keeps_raise keeps_list keeps_if keeps_idToString keeps_firstRow
        | rule keeps_andThen keeps_tryCatch)+)

lemma held_same:
  assumes "\<And>h. keeps (\<lambda>w. held w = h) m"
  shows "held (snd (m w)) = held w"
  using assms [of "held w"] by (simp add: keeps_def)

lemma held_step:
  assumes "\<And>w. held (snd (m w)) = held w"
    and "\<And>x w. (fst (f x w) = Inr r \<and> held (snd (f x w)) = held w - 1) \<or>
                 ((\<exists>e. fst (f x w) = Inl e) \<and> held (snd (f x w)) = held w)"
  shows "(fst (andThen m f w) = Inr r \<and> held (snd (andThen m f w)) = held w - 1) \<or>
         ((\<exists>e. fst (andThen m f w) = Inl e) \<and> held (snd (andThen m f w)) = held w)"
proof (cases "m w")
  case (Pair res w')
  with assms(1) [of w] have h: "held w' = held w" by simp
  show ?thesis
  proof (cases res)
    case (Inl e)
    with Pair h show ?thesis by (simp add: andThen_def)
  next
    case (Inr x)
    with Pair h assms(2) [of x w'] show ?thesis by (simp add: andThen_def)
  qed
qed

text \<open>
  \<open>putTenantConfiguration\<close> returns its connection when it answers with success.
  Once it has taken a connection, every other outcome leaves the connection checked
  out.
\<close>

lemma put_configuration_body:
  "(fst (andThen clientBegin (\<lambda>u.
         andThen (clientQuery q1) (\<lambda>u.
         andThen (clientQuery q2) (\<lambda>u.
         andThen clientCommit (\<lambda>u.
         andThen clientRelease (\<lambda>u. ret r))))) w) = Inr r \<and>
    held (snd (andThen clientBegin (\<lambda>u.
         andThen (clientQuery q1) (\<lambda>u.
         andThen (clientQuery q2) (\<lambda>u.
         andThen clientCommit (\<lambda>u.
         andThen clientRelease (\<lambda>u. ret r))))) w)) = held w - 1) \<or>
   ((\<exists>e. fst (andThen clientBegin (\<lambda>u.
         andThen (clientQuery q1) (\<lambda>u.
         andThen (clientQuery q2) (\<lambda>u.
         andThen clientCommit (\<lambda>u.
         andThen clientRelease (\<lambda>u. ret r))))) w) = Inl e) \<and>
    held (snd (andThen clientBegin (\<lambda>u.
         andThen (clientQuery q1) (\<lambda>u.
         andThen (clientQuery q2) (\<lambda>u.
         andThen clientCommit (\<lambda>u.
         andThen clientRelease (\<lambda>u. ret r))))) w)) = held w)"
  by (rule held_step, rule held_same, rule held_client(2),
      rule held_step, rule held_same, rule held_client(1),
      rule held_step, rule held_same, rule held_client(1),
      rule held_step, rule held_same, rule held_client(3),
      simp add: andThen_def clientRelease_def ret_def)

lemma put_configuration_frame:
  assumes "\<And>w. (fst (m w) = Inr r \<and> held (snd (m w)) = held w - 1) \<or>
                ((\<exists>e. fst (m w) = Inl e) \<and> held (snd (m w)) = held w)"
  shows "fst (tryCatch (andThen poolConnect (\<lambda>client. m)) (\<lambda>error. ret r') w) = Inr r \<and>
         held (snd (tryCatch (andThen poolConnect (\<lambda>client. m)) (\<lambda>error. ret r') w)) = held w \<or>
         fst (tryCatch (andThen poolConnect (\<lambda>client. m)) (\<lambda>error. ret r') w) = Inr r' \<and>
         held (snd (tryCatch (andThen poolConnect (\<lambda>client. m)) (\<lambda>error. ret r') w)) =
           (if failing w (trips w) \<or> POOL_MAX \<le> held w then held w else held w + 1)"
proof (cases "failing w (trips w) \<or> POOL_MAX \<le> held w")
  case True
  then show ?thesis
    by (simp add: tryCatch_def andThen_def poolConnect_def ret_def)
next
  case False
  let ?w = "w\<lparr>trips := trips w + 1, held := held w + 1\<rparr>"
  from False have e: "tryCatch (andThen poolConnect (\<lambda>client. m)) (\<lambda>error. ret r') w =
      tryCatch m (\<lambda>error. ret r') ?w"
    by (simp add: tryCatch_def andThen_def poolConnect_def)
  from assms [of ?w] False show ?thesis
    unfolding e by (cases "m ?w") (auto simp add: tryCatch_def ret_def)
qed

lemma put_configuration_cases:
  "fst (putTenantConfiguration now t body w) =
     Inr (Reply 200 (Success ''Tenant configuration updated'')) \<and>
   held (snd (putTenantConfiguration now t body w)) = held w \<or>
   fst (putTenantConfiguration now t body w) =
     Inr (Reply 500 (ErrorMsg ''Failed to update tenant configuration'')) \<and>
   held (snd (putTenantConfiguration now t body w)) =
     (if failing w (trips w) \<or> POOL_MAX \<le> held w then held w else held w + 1)"
  unfolding putTenantConfiguration_def
  by (rule put_configuration_frame, rule put_configuration_body)

lemma put_configuration_ok:
  assumes "fst (putTenantConfiguration now t body w) =
     Inr (Reply 200 (Success ''Tenant configuration updated''))"
  shows "held (snd (putTenantConfiguration now t body w)) = held w"
  using assms put_configuration_cases [of now t body w] by auto

lemma put_configuration_leaks:
  assumes "pending w = None" "held w < POOL_MAX" "\<not> failing w (trips w)"
    "fst (putTenantConfiguration now t body w) \<noteq>
       Inr (Reply 200 (Success ''Tenant configuration updated''))"
  shows "held (snd (putTenantConfiguration now t body w)) = held w + 1"
  using assms put_configuration_cases [of now t body w] by auto

text \<open>
  C6 at \<open>PUT /api/tenants/default/configuration\<close> of the second admin module, with
  a body that only changes the colour: the insert violates \<open>NOT NULL\<close>, the reply is
  \<open>500\<close>, and the handler ends with the connection still checked out and its
  transaction still open.
\<close>

theorem C6_put_configuration_leak:
  "fst (putTenantConfiguration 1 ''default''
      \<lparr>body_wagon_count = None, body_wagon_types = None, body_custom_labels = None,
       body_primary_color = Some ''#FF0000'', body_logo_url = None\<rparr> exampleWorld) =
     Inr (Reply 500 (ErrorMsg ''Failed to update tenant configuration'')) \<and>
   held exampleWorld = 0 \<and>
   held (snd (putTenantConfiguration 1 ''default''
      \<lparr>body_wagon_count = None, body_wagon_types = None, body_custom_labels = None,
       body_primary_color = Some ''#FF0000'', body_logo_url = None\<rparr> exampleWorld)) = 1 \<and>
   pending (snd (putTenantConfiguration 1 ''default''
      \<lparr>body_wagon_count = None, body_wagon_types = None, body_custom_labels = None,
       body_primary_color = Some ''#FF0000'', body_logo_url = None\<rparr> exampleWorld)) \<noteq> None \<and>
   committed (snd (putTenantConfiguration 1 ''default''
      \<lparr>body_wagon_count = None, body_wagon_types = None, body_custom_labels = None,
       body_primary_color = Some ''#FF0000'', body_logo_url = None\<rparr> exampleWorld)) = exampleDb"
  by (simp add: putTenantConfiguration_def io_defs stmt_defs example_defs POOL_MAX_def coalesce_def
      column_defs)

end
